theory Spec2Isabelle
  imports Main "HOL-Library.AList"
begin

section \<open>Decoded JSON values and the Python operations the client applies to them\<close>

text \<open>
  Everything the client receives is the result of \<^verbatim>\<open>json.loads\<close>: \<^verbatim>\<open>None\<close>, a bool, an int,
  a str, a list or a dict with str keys. JSON numbers with a fraction or an exponent
  (Python floats) are left out of the model. A str is a list of characters with code
  points below 256. A dict is an association list in insertion order; a lookup reads the
  first entry of a key and an assignment replaces it in place or appends a new entry,
  as a Python dict does.
\<close>

datatype json =
    JNull
  | JBool bool
  | JInt int
  | JStr string
  | JList "json list"
  | JObj "(string \<times> json) list"

type_synonym obj = "(string \<times> json) list"

text \<open>\<^verbatim>\<open>d.get(key, default)\<close> and \<^verbatim>\<open>d[key] = value\<close> on a dict.\<close>

definition py_get :: "obj \<Rightarrow> string \<Rightarrow> json \<Rightarrow> json" where
  "py_get d k dflt = (case map_of d k of Some v \<Rightarrow> v | None \<Rightarrow> dflt)"

definition py_setitem :: "obj \<Rightarrow> string \<Rightarrow> json \<Rightarrow> obj" where
  "py_setitem d k v = AList.update k v d"

text \<open>Truthiness of a decoded value, as \<^verbatim>\<open>if x:\<close> and \<^verbatim>\<open>x and y\<close> test it.\<close>

fun py_truthy :: "json \<Rightarrow> bool" where
  "py_truthy JNull = False"
| "py_truthy (JBool b) = b"
| "py_truthy (JInt i) = (i \<noteq> 0)"
| "py_truthy (JStr s) = (s \<noteq> [])"
| "py_truthy (JList xs) = (xs \<noteq> [])"
| "py_truthy (JObj kvs) = (kvs \<noteq> [])"

text \<open>
  \<^verbatim>\<open>str(x)\<close>, which an f-string applies to the value it interpolates. A str is its own
  text; inside a list or dict every value is shown by \<^verbatim>\<open>repr\<close>, which quotes and escapes
  a str.
\<close>

fun join :: "string \<Rightarrow> string list \<Rightarrow> string" where
  "join sep [] = []"
| "join sep [x] = x"
| "join sep (x # y # ys) = x @ sep @ join sep (y # ys)"

fun str_nat :: "nat \<Rightarrow> string" where
  "str_nat n =
     (if n < 10 then [char_of (48 + n)]
      else str_nat (n div 10) @ [char_of (48 + n mod 10)])"

definition str_int :: "int \<Rightarrow> string" where
  "str_int i = (if i < 0 then CHR ''-'' # str_nat (nat (- i)) else str_nat (nat i))"

definition hex_digit :: "nat \<Rightarrow> char" where
  "hex_digit n = (if n < 10 then char_of (48 + n) else char_of (87 + n))"

definition printable :: "char \<Rightarrow> bool" where
  "printable c =
     (let n = (of_char c :: nat)
      in \<not> (n < 32 \<or> (127 \<le> n \<and> n \<le> 160) \<or> n = 173))"

definition escape_char :: "char \<Rightarrow> char \<Rightarrow> string" where
  "escape_char quote c =
     (if c = quote \<or> c = CHR 0x5C then [CHR 0x5C, c]
      else if c = CHR 0x09 then [CHR 0x5C, CHR ''t'']
      else if c = CHR 0x0A then [CHR 0x5C, CHR ''n'']
      else if c = CHR 0x0D then [CHR 0x5C, CHR ''r'']
      else if \<not> printable c then
        [CHR 0x5C, CHR ''x'', hex_digit ((of_char c :: nat) div 16),
         hex_digit ((of_char c :: nat) mod 16)]
      else [c])"

definition repr_str :: "string \<Rightarrow> string" where
  "repr_str s =
     (let quote = (if CHR 0x27 \<in> set s \<and> CHR 0x22 \<notin> set s then CHR 0x22 else CHR 0x27)
      in quote # concat (map (escape_char quote) s) @ [quote])"

fun py_repr :: "json \<Rightarrow> string" where
  "py_repr JNull = ''None''"
| "py_repr (JBool b) = (if b then ''True'' else ''False'')"
| "py_repr (JInt i) = str_int i"
| "py_repr (JStr s) = repr_str s"
| "py_repr (JList xs) = ''['' @ join '', '' (map py_repr xs) @ '']''"
| "py_repr (JObj kvs) =
     ''{'' @ join '', '' (map (\<lambda>(k, v). repr_str k @ '': '' @ py_repr v) kvs) @ ''}''"

definition py_str :: "json \<Rightarrow> string" where
  "py_str v = (case v of JStr s \<Rightarrow> s | _ \<Rightarrow> py_repr v)"

text \<open>
  \<^verbatim>\<open>str.replace(old, new)\<close> for a non-empty \<^verbatim>\<open>old\<close>: every occurrence, left to right,
  without overlap.
\<close>

function replace :: "string \<Rightarrow> string \<Rightarrow> string \<Rightarrow> string" where
  "replace old new [] = []"
| "replace old new (c # cs) =
     (if old \<noteq> [] \<and> take (length old) (c # cs) = old
      then new @ replace old new (drop (length old) (c # cs))
      else c # replace old new cs)"
  by pat_completeness auto
termination
  by (relation "measure (\<lambda>(old, new, s). length s)") auto

section \<open>Exceptions\<close>

text \<open>
  The exceptions that reach an \<^verbatim>\<open>except\<close> clause of the client, by the classes its
  clauses tell apart. All of them derive from \<^verbatim>\<open>Exception\<close>; \<^verbatim>\<open>KeyboardInterrupt\<close> and
  task cancellation, which no clause of the client catches, are outside the model.
  \<^verbatim>\<open>ConnectionRefusedError\<close> and \<^verbatim>\<open>ConnectionResetError\<close> are subclasses of Python's
  built-in \<^verbatim>\<open>ConnectionError\<close>; \<^verbatim>\<open>websockets.exceptions.ConnectionClosed\<close> is not. The text
  of the errors the interpreter raises itself (\<^verbatim>\<open>TypeError\<close>, \<^verbatim>\<open>AttributeError\<close>) is not
  modelled.
\<close>

datatype exn =
    ConnectionClosed string
  | ConnectionError string
  | ConnectionRefusedError string
  | ConnectionResetError string
  | JSONDecodeError string
  | TypeError
  | AttributeError
  | OtherException string string

fun is_ConnectionClosed :: "exn \<Rightarrow> bool" where
  "is_ConnectionClosed (ConnectionClosed m) = True"
| "is_ConnectionClosed e = False"

fun is_ConnectionError :: "exn \<Rightarrow> bool" where
  "is_ConnectionError (ConnectionError m) = True"
| "is_ConnectionError (ConnectionRefusedError m) = True"
| "is_ConnectionError (ConnectionResetError m) = True"
| "is_ConnectionError e = False"

fun is_JSONDecodeError :: "exn \<Rightarrow> bool" where
  "is_JSONDecodeError (JSONDecodeError m) = True"
| "is_JSONDecodeError e = False"

text \<open>
  A key looked up in a dict whose keys are strs (\<^verbatim>\<open>table.get(key)\<close>): a list or a dict
  is unhashable and the lookup raises; any other value that is not a str is in no entry.
\<close>

fun lookup_key :: "(string \<times> 'a) list \<Rightarrow> json \<Rightarrow> exn + 'a option" where
  "lookup_key table (JStr s) = Inr (map_of table s)"
| "lookup_key table (JList xs) = Inl TypeError"
| "lookup_key table (JObj kvs) = Inl TypeError"
| "lookup_key table k = Inr None"

section \<open>Data model\<close>

text \<open>
  The fields of the client that a request reads: the instance URL and the bot token.
  A command context keeps a back-reference to its client only to send replies, so the
  back-reference is modelled by these fields.
\<close>

record api =
  instance_url :: string
  token :: string

text \<open>
  \<^verbatim>\<open>models.Message\<close>. Python does not check the declared field types, so every field
  holds whatever the payload holds.
\<close>

record message =
  msg_id :: json
  msg_username :: json
  msg_content :: json
  msg_timestamp :: json
  msg_server_id :: json
  msg_channel_id :: json
  msg_context :: json
  msg_context_id :: json
  msg_is_bot :: json
  msg_edited_at :: json
  msg_reactions :: json
  msg_attachments :: json
  msg_mentions :: json
  msg_reply_data :: json
  msg_raw :: obj

definition from_event :: "obj \<Rightarrow> message" where
  "from_event data =
     \<lparr> msg_id = py_get data ''id'' JNull,
       msg_username = py_get data ''username'' (JStr ''''),
       msg_content = py_get data ''content'' (JStr ''''),
       msg_timestamp = py_get data ''timestamp'' (JStr ''''),
       msg_server_id = py_get data ''server_id'' (JStr ''''),
       msg_channel_id = py_get data ''channel_id'' (JStr ''''),
       msg_context = py_get data ''context'' (JStr ''''),
       msg_context_id = py_get data ''context_id'' (JStr ''''),
       msg_is_bot = py_get data ''is_bot'' (JBool False),
       msg_edited_at = py_get data ''edited_at'' JNull,
       msg_reactions = py_get data ''reactions'' (JList []),
       msg_attachments = py_get data ''attachments'' (JList []),
       msg_mentions = py_get data ''mentions'' (JList []),
       msg_reply_data = py_get data ''reply_data'' JNull,
       msg_raw = data \<rparr>"

text \<open>
  \<^verbatim>\<open>Message()\<close>: the defaults the dataclass declares for its fields, and the key of the
  payload that each field is read from.
\<close>

definition default_message :: message where
  "default_message =
     \<lparr> msg_id = JNull, msg_username = JStr '''', msg_content = JStr '''',
       msg_timestamp = JStr '''', msg_server_id = JStr '''', msg_channel_id = JStr '''',
       msg_context = JStr '''', msg_context_id = JStr '''', msg_is_bot = JBool False,
       msg_edited_at = JNull, msg_reactions = JList [], msg_attachments = JList [],
       msg_mentions = JList [], msg_reply_data = JNull, msg_raw = [] \<rparr>"

definition message_fields :: "(string \<times> (message \<Rightarrow> json)) list" where
  "message_fields =
     [(''id'', msg_id), (''username'', msg_username), (''content'', msg_content),
      (''timestamp'', msg_timestamp), (''server_id'', msg_server_id),
      (''channel_id'', msg_channel_id), (''context'', msg_context),
      (''context_id'', msg_context_id), (''is_bot'', msg_is_bot),
      (''edited_at'', msg_edited_at), (''reactions'', msg_reactions),
      (''attachments'', msg_attachments), (''mentions'', msg_mentions),
      (''reply_data'', msg_reply_data)]"

text \<open>\<^verbatim>\<open>commands.SlashCommandContext\<close>.\<close>

record slash_command_context =
  ctx_command_name :: json
  ctx_arguments :: json
  ctx_user :: json
  ctx_server_id :: json
  ctx_channel_id :: json
  ctx_bot :: "api option"

text \<open>\<^verbatim>\<open>commands.SlashCommandParam\<close> and its \<^verbatim>\<open>to_dict\<close>.\<close>

record slash_command_param =
  param_name :: string
  param_description :: string
  param_type :: string
  param_required :: bool
  param_choices :: "(string \<times> string) list list"

definition to_dict :: "slash_command_param \<Rightarrow> json" where
  "to_dict p =
     JObj ([(''name'', JStr (param_name p)),
            (''description'', JStr (param_description p)),
            (''type'', JStr (param_type p)),
            (''required'', JBool (param_required p))]
           @ (if param_choices p \<noteq> []
              then [(''choices'',
                     JList (map (\<lambda>c. JObj (map (\<lambda>(k, v). (k, JStr v)) c)) (param_choices p)))]
              else []))"

text \<open>
  What a callback is handed: a message record, the raw payload, or a command context.
  A callback is user code; the model keeps its identity and whether a call of it
  returns or raises. A callback that changes the payload it is handed is not modelled.
\<close>

datatype handler_arg =
    MessageArg message
  | PayloadArg obj
  | ContextArg slash_command_context

record handler =
  hid :: nat
  behaviour :: "handler_arg \<Rightarrow> exn option"

text \<open>
  An entry of the \<^verbatim>\<open>parameters\<close> list of a registration: an object with \<^verbatim>\<open>to_dict\<close>,
  or a value that is sent as it is.
\<close>

datatype parameter = Param slash_command_param | Plain json

record bot = api +
  event_handlers :: "(string \<times> handler list) list"
  slash_handlers :: "(string \<times> handler) list"
  slash_definitions :: "json list"
  running :: bool

section \<open>What the client does: log records, requests, calls and waits\<close>

datatype level = DEBUG | INFO | WARNING | ERROR

text \<open>One constructor for each \<^verbatim>\<open>logger\<close> call of the client, with the call's arguments.\<close>

datatype log_msg =
    Connecting string
  | Authenticated json json
  | UnexpectedAuthResponse json
  | RegisteredCommands nat json
  | NonJSONMessage
  | ErrorHandlingEvent exn
  | WebSocketClosed exn
  | ConnectionErrorRetry exn
  | UnexpectedError exn
  | HandlerError json exn
  | UnhandledMessageType json
  | ApiError string string int json
  | Starting
  | Stopped

datatype log_arg = ArgStr string | ArgJson json | ArgExn exn | ArgInt int

fun log_args :: "log_msg \<Rightarrow> log_arg list" where
  "log_args (Connecting url) = [ArgStr url]"
| "log_args (Authenticated username bot_id) = [ArgJson username, ArgJson bot_id]"
| "log_args (UnexpectedAuthResponse auth_data) = [ArgJson auth_data]"
| "log_args (RegisteredCommands n result) = [ArgInt (int n), ArgJson result]"
| "log_args NonJSONMessage = []"
| "log_args (ErrorHandlingEvent e) = [ArgExn e]"
| "log_args (WebSocketClosed e) = [ArgExn e]"
| "log_args (ConnectionErrorRetry e) = [ArgExn e]"
| "log_args (UnexpectedError e) = [ArgExn e]"
| "log_args (HandlerError event_name e) = [ArgJson event_name, ArgExn e]"
| "log_args (UnhandledMessageType event_type) = [ArgJson event_type]"
| "log_args (ApiError method path status data) =
     [ArgStr method, ArgStr path, ArgInt status, ArgJson data]"
| "log_args Starting = []"
| "log_args Stopped = []"

text \<open>
  A request of the action client. The URL is \<^verbatim>\<open>urljoin\<close> of the instance URL and the
  path; the model keeps the path.
\<close>

record request =
  req_method :: string
  req_path :: string
  req_headers :: "(string \<times> string) list"
  req_json :: "json option"

datatype event =
    Log level log_msg
  | Connect string
  | Send json
  | Request request
  | Invoke nat handler_arg
  | Sleep nat

text \<open>
  The answer to one request: \<^verbatim>\<open>session.request\<close> raises, or there is a response with a
  status and a body, the body given by what \<^verbatim>\<open>resp.json()\<close> makes of it.
\<close>

datatype http_outcome = RequestRaises exn | Response int "exn + json"


section \<open>Handler registration\<close>

text \<open>\<^verbatim>\<open>self._event_handlers.setdefault(event, []).append(handler)\<close>.\<close>

definition handlers_for :: "(string \<times> handler list) list \<Rightarrow> string \<Rightarrow> handler list" where
  "handlers_for table event = (case map_of table event of Some hs \<Rightarrow> hs | None \<Rightarrow> [])"

definition add_event_handler :: "string \<Rightarrow> handler \<Rightarrow> bot \<Rightarrow> bot" where
  "add_event_handler event h b =
     b\<lparr>event_handlers :=
         AList.update event (handlers_for (event_handlers b) event @ [h]) (event_handlers b)\<rparr>"

definition on_message :: "handler \<Rightarrow> bot \<Rightarrow> bot" where
  "on_message h b = add_event_handler ''message_create'' h b"

definition on_event :: "string \<Rightarrow> handler \<Rightarrow> bot \<Rightarrow> bot" where
  "on_event event_name h b = add_event_handler event_name h b"

text \<open>
  \<^verbatim>\<open>DecentraBot.slash_command(name, description, parameters)\<close> applied to a function: the
  handler table is assigned at the name, the definition is appended to the list.
\<close>

definition command_definition :: "string \<Rightarrow> string \<Rightarrow> parameter list option \<Rightarrow> json" where
  "command_definition name description parameters =
     JObj [(''name'', JStr name),
           (''description'', JStr description),
           (''parameters'',
            JList (map (\<lambda>p. case p of Param sp \<Rightarrow> to_dict sp | Plain v \<Rightarrow> v)
                     (case parameters of None \<Rightarrow> [] | Some ps \<Rightarrow> ps)))]"

definition slash_command ::
  "string \<Rightarrow> string \<Rightarrow> parameter list option \<Rightarrow> handler \<Rightarrow> bot \<Rightarrow> bot" where
  "slash_command name description parameters func b =
     b\<lparr>slash_handlers := AList.update name func (slash_handlers b),
       slash_definitions :=
         slash_definitions b @ [command_definition name description parameters]\<rparr>"

text \<open>
  A registration as one value, so that a sequence of registrations is a list, and the
  name a definition carries.
\<close>

type_synonym registration = "string \<times> string \<times> parameter list option \<times> handler"

definition register :: "registration \<Rightarrow> bot \<Rightarrow> bot" where
  "register r b = (case r of (name, description, parameters, func) \<Rightarrow>
                     slash_command name description parameters func b)"

definition definition_name :: "json \<Rightarrow> json option" where
  "definition_name d = (case d of JObj kvs \<Rightarrow> map_of kvs ''name'' | _ \<Rightarrow> None)"

section \<open>Action client\<close>

definition headers :: "'a api_scheme \<Rightarrow> (string \<times> string) list" where
  "headers a =
     [(''Authorization'', ''Bot '' @ token a), (''Content-Type'', ''application/json'')]"

text \<open>
  \<^verbatim>\<open>_api_request\<close>: the body is parsed first; a status of 400 or more is logged; the
  parsed body is returned. An exception of the request or of the parsing propagates.
\<close>

definition api_request ::
  "'a api_scheme \<Rightarrow> http_outcome \<Rightarrow> string \<Rightarrow> string \<Rightarrow> json option
     \<Rightarrow> event list \<times> (exn + json)" where
  "api_request a outcome method path body =
     (let req = \<lparr>req_method = method, req_path = path, req_headers = headers a,
                 req_json = body\<rparr>
      in case outcome of
           RequestRaises e \<Rightarrow> ([Request req], Inl e)
         | Response status parsed \<Rightarrow>
             (case parsed of
                Inl e \<Rightarrow> ([Request req], Inl e)
              | Inr data \<Rightarrow>
                  (if status \<ge> 400
                   then ([Request req, Log ERROR (ApiError method path status data)], Inr data)
                   else ([Request req], Inr data))))"

definition send_message ::
  "'a api_scheme \<Rightarrow> http_outcome \<Rightarrow> json \<Rightarrow> json \<Rightarrow> string \<Rightarrow> event list \<times> (exn + json)" where
  "send_message a outcome server_id channel_id content =
     api_request a outcome ''POST'' ''/api/bot/messages''
       (Some (JObj [(''server_id'', server_id), (''channel_id'', channel_id),
                    (''content'', JStr content)]))"

definition register_commands :: "bot \<Rightarrow> http_outcome \<Rightarrow> event list \<times> (exn + json)" where
  "register_commands b outcome =
     (if slash_definitions b = []
      then ([], Inr (JObj [(''success'', JBool True),
                           (''message'', JStr ''No commands to register'')]))
      else api_request b outcome ''POST'' ''/api/bot/commands''
             (Some (JObj [(''commands'', JList (slash_definitions b))])))"

text \<open>
  \<^verbatim>\<open>SlashCommandContext.reply\<close>: the result is \<^verbatim>\<open>None\<close> when nothing is sent. An object
  such as the client is truthy, so the back-reference is falsy only when it is \<^verbatim>\<open>None\<close>.
\<close>

definition reply ::
  "slash_command_context \<Rightarrow> http_outcome \<Rightarrow> string \<Rightarrow> event list \<times> (exn + json option)" where
  "reply ctx outcome content =
     (case ctx_bot ctx of
        None \<Rightarrow> ([], Inr None)
      | Some a \<Rightarrow>
          (if py_truthy (ctx_server_id ctx) \<and> py_truthy (ctx_channel_id ctx)
           then (case send_message a outcome (ctx_server_id ctx) (ctx_channel_id ctx) content of
                   (tr, Inl e) \<Rightarrow> (tr, Inl e)
                 | (tr, Inr data) \<Rightarrow> (tr, Inr (Some data)))
           else ([], Inr None)))"

section \<open>Event dispatch\<close>

text \<open>
  The loop over the handlers of an event: each is called with the message record or the
  payload; an exception of a call is logged and the loop goes on.
\<close>

fun call_handlers :: "json \<Rightarrow> obj \<Rightarrow> handler list \<Rightarrow> event list" where
  "call_handlers event_name event_data [] = []"
| "call_handlers event_name event_data (h # hs) =
     (let arg = (if event_name = JStr ''message_create''
                 then MessageArg (from_event event_data)
                 else PayloadArg event_data)
      in Invoke (hid h) arg
         # (case behaviour h arg of
              Some e \<Rightarrow> [Log ERROR (HandlerError event_name e)]
            | None \<Rightarrow> [])
         @ call_handlers event_name event_data hs)"

text \<open>The two assignments that put the envelope's identifiers into the payload.\<close>

definition inject_ids :: "obj \<Rightarrow> obj \<Rightarrow> obj" where
  "inject_ids data event_data =
     py_setitem
       (py_setitem event_data ''server_id'' (py_get data ''server_id'' (JStr '''')))
       ''channel_id'' (py_get data ''channel_id'' (JStr ''''))"

text \<open>The context built for a command: its fields are read from the payload.\<close>

definition command_context :: "bot \<Rightarrow> json \<Rightarrow> obj \<Rightarrow> slash_command_context" where
  "command_context b cmd_name event_data =
     \<lparr>ctx_command_name = cmd_name,
      ctx_arguments = py_get event_data ''arguments'' (JObj []),
      ctx_user = py_get event_data ''user'' (JStr ''''),
      ctx_server_id = py_get event_data ''server_id'' (JStr ''''),
      ctx_channel_id = py_get event_data ''channel_id'' (JStr ''''),
      ctx_bot = Some (api.truncate b)\<rparr>"

text \<open>
  \<^verbatim>\<open>_dispatch_event\<close>. The argument is any decoded value: \<^verbatim>\<open>.get\<close> on a value that is not
  a dict raises \<^verbatim>\<open>AttributeError\<close>, and the assignment into a payload that is not a dict
  raises \<^verbatim>\<open>TypeError\<close>.
\<close>

definition dispatch_event :: "bot \<Rightarrow> json \<Rightarrow> event list \<times> (exn + unit)" where
  "dispatch_event b frame =
     (case frame of
        JObj data \<Rightarrow>
          (let event_type = py_get data ''type'' (JStr '''') in
           if event_type = JStr ''bot_event'' then
             (let event_name = py_get data ''event'' (JStr '''') in
              case py_get data ''data'' (JObj []) of
                JObj payload \<Rightarrow>
                  (let event_data = inject_ids data payload in
                   if event_name = JStr ''slash_command'' then
                     (let cmd_name = py_get event_data ''command'' (JStr '''') in
                      case lookup_key (slash_handlers b) cmd_name of
                        Inl e \<Rightarrow> ([], Inl e)
                      | Inr None \<Rightarrow> ([], Inr ())
                      | Inr (Some h) \<Rightarrow>
                          (let ctx = command_context b cmd_name event_data
                           in ([Invoke (hid h) (ContextArg ctx)],
                               case behaviour h (ContextArg ctx) of
                                 Some e \<Rightarrow> Inl e
                               | None \<Rightarrow> Inr ())))
                   else
                     (case lookup_key (event_handlers b) event_name of
                        Inl e \<Rightarrow> ([], Inl e)
                      | Inr found \<Rightarrow>
                          (call_handlers event_name event_data
                             (case found of Some hs \<Rightarrow> hs | None \<Rightarrow> []),
                           Inr ())))
              | _ \<Rightarrow> ([], Inl TypeError))
           else if event_type = JStr ''pong'' then ([], Inr ())
           else ([Log DEBUG (UnhandledMessageType event_type)], Inr ()))
      | _ \<Rightarrow> ([], Inl AttributeError))"


section \<open>WebSocket connection and the reconnecting loop\<close>

definition ws_url :: "'a api_scheme \<Rightarrow> string" where
  "ws_url a =
     replace ''https://'' ''wss://'' (replace ''http://'' ''ws://'' (instance_url a)) @ ''/ws''"

text \<open>
  A frame as it arrives is represented by what \<^verbatim>\<open>json.loads\<close> makes of it: the decoded
  value, or the exception it raises.
\<close>

type_synonym raw_frame = "exn + json"

text \<open>
  What the world does during one pass through the body of the loop: whether
  \<^verbatim>\<open>websockets.connect\<close> and the \<^verbatim>\<open>send\<close> of the authentication frame raise, what
  \<^verbatim>\<open>recv\<close> gives, the answer to the registration request, the frames the connection
  yields and how the iteration over it ends (exhausted after a clean close, or raising),
  and whether \<^verbatim>\<open>stop\<close> is called from outside during the pass or during the wait that
  follows it.
\<close>

record attempt =
  connect_raises :: "exn option"
  send_raises :: "exn option"
  recv_result :: "exn + raw_frame"
  register_outcome :: http_outcome
  frames :: "raw_frame list"
  stream_end :: "exn option"
  stop_in_attempt :: bool
  stop_in_wait :: bool

definition connect_ws :: "bot \<Rightarrow> attempt \<Rightarrow> event list \<times> (exn + unit)" where
  "connect_ws b a =
     (let t0 = [Log INFO (Connecting (ws_url b)), Connect (ws_url b)] in
      case connect_raises a of
        Some e \<Rightarrow> (t0, Inl e)
      | None \<Rightarrow>
          (let t1 = t0 @ [Send (JObj [(''type'', JStr ''bot_auth''), (''token'', JStr (token b))])] in
           case send_raises a of
             Some e \<Rightarrow> (t1, Inl e)
           | None \<Rightarrow>
               (case recv_result a of
                  Inl e \<Rightarrow> (t1, Inl e)
                | Inr (Inl e) \<Rightarrow> (t1, Inl e)
                | Inr (Inr auth_data) \<Rightarrow>
                    (case auth_data of
                       JObj d \<Rightarrow>
                         if py_get d ''type'' JNull = JStr ''bot_auth_success'' then
                           (t1 @ [Log INFO (Authenticated (py_get d ''username'' JNull)
                                              (py_get d ''bot_id'' JNull))],
                            Inr ())
                         else if py_get d ''type'' JNull = JStr ''error'' then
                           (t1, Inl (ConnectionError
                                       (''Authentication failed: '' @ py_str (py_get d ''message'' JNull))))
                         else (t1 @ [Log WARNING (UnexpectedAuthResponse auth_data)], Inr ())
                     | _ \<Rightarrow> (t1, Inl AttributeError)))))"

text \<open>
  The body of the loop over the frames of a connection: decode, dispatch, and the two
  \<^verbatim>\<open>except\<close> clauses, of which the first takes every \<^verbatim>\<open>JSONDecodeError\<close> wherever in the
  \<^verbatim>\<open>try\<close> block it was raised.
\<close>

definition handle_frame :: "bot \<Rightarrow> raw_frame \<Rightarrow> event list" where
  "handle_frame b raw_message =
     (case (case raw_message of
              Inl e \<Rightarrow> ([], Inl e)
            | Inr data \<Rightarrow> dispatch_event b data) of
        (tr, Inr u) \<Rightarrow> tr
      | (tr, Inl e) \<Rightarrow>
          (if is_JSONDecodeError e then tr @ [Log WARNING NonJSONMessage]
           else tr @ [Log ERROR (ErrorHandlingEvent e)]))"

fun process_frames :: "bot \<Rightarrow> raw_frame list \<Rightarrow> event list" where
  "process_frames b [] = []"
| "process_frames b (raw_message # rest) = handle_frame b raw_message @ process_frames b rest"

text \<open>The \<^verbatim>\<open>try\<close> block of \<^verbatim>\<open>_ws_loop\<close>: connect, register the commands, stream.\<close>

definition ws_attempt :: "bot \<Rightarrow> attempt \<Rightarrow> event list \<times> (exn + unit)" where
  "ws_attempt b a =
     (case connect_ws b a of
        (t1, Inl e) \<Rightarrow> (t1, Inl e)
      | (t1, Inr u) \<Rightarrow>
          (case (if slash_definitions b \<noteq> []
                 then (case register_commands b (register_outcome a) of
                         (t2, Inl e) \<Rightarrow> (t2, Inl e)
                       | (t2, Inr result) \<Rightarrow>
                           (t2 @ [Log INFO (RegisteredCommands (length (slash_definitions b)) result)],
                            Inr ()))
                 else ([], Inr ())) of
             (t2, Inl e) \<Rightarrow> (t1 @ t2, Inl e)
           | (t2, Inr u) \<Rightarrow>
               (t1 @ t2 @ process_frames b (frames a),
                case stream_end a of Some e \<Rightarrow> Inl e | None \<Rightarrow> Inr ())))"

text \<open>
  The \<^verbatim>\<open>except\<close> clauses of \<^verbatim>\<open>_ws_loop\<close>, in their order. The result says what was logged
  and waited, and whether the clause ended with \<^verbatim>\<open>continue\<close>.
\<close>

definition except_clauses :: "exn + unit \<Rightarrow> event list \<times> bool" where
  "except_clauses res =
     (case res of
        Inr u \<Rightarrow> ([], False)
      | Inl e \<Rightarrow>
          (if is_ConnectionClosed e then ([Log WARNING (WebSocketClosed e)], False)
           else if is_ConnectionError e then ([Log ERROR (ConnectionErrorRetry e), Sleep 10], True)
           else ([Log ERROR (UnexpectedError e)], False)))"

text \<open>\<^verbatim>\<open>stop\<close> clears the running flag (and closes the connection and the session).\<close>

definition stop :: "bot \<Rightarrow> bot" where
  "stop b = b\<lparr>running := False\<rparr>"

text \<open>
  \<^verbatim>\<open>_ws_loop\<close> against a script of passes. The loop has exited when it finds the running
  flag cleared; when the script is used up and the flag is still set, the loop is about
  to connect again.
\<close>

datatype loop_status = Exited | Reconnecting

fun ws_loop :: "bot \<Rightarrow> attempt list \<Rightarrow> event list \<times> loop_status" where
  "ws_loop b [] = ([], if running b then Reconnecting else Exited)"
| "ws_loop b (a # rest) =
     (if \<not> running b then ([], Exited)
      else
        (let tried = ws_attempt b a;
             caught = except_clauses (snd tried);
             b1 = (if stop_in_attempt a then stop b else b);
             wait = (if \<not> snd caught \<and> running b1 then [Sleep 5] else []);
             b2 = (if stop_in_wait a then stop b1 else b1);
             later = ws_loop b2 rest
         in (fst tried @ fst caught @ wait @ fst later, snd later)))"

definition start :: "bot \<Rightarrow> attempt list \<Rightarrow> event list \<times> loop_status" where
  "start b script =
     (let later = ws_loop (b\<lparr>running := True\<rparr>) script
      in (Log INFO Starting # fst later, snd later))"


text \<open>The URLs a trace connects to, one for each call of \<^verbatim>\<open>websockets.connect\<close>.\<close>

fun connections :: "event list \<Rightarrow> string list" where
  "connections [] = []"
| "connections (Connect u # tr) = u # connections tr"
| "connections (ev # tr) = connections tr"

section \<open>Clients and callbacks used as concrete inputs\<close>

text \<open>
  The state \<^verbatim>\<open>__init__\<close> leaves for a URL without a trailing slash and a non-empty token,
  when there is no decorated method to discover: empty handler tables, no definitions,
  the running flag cleared.
\<close>

definition new_bot :: "string \<Rightarrow> string \<Rightarrow> bot" where
  "new_bot url tok =
     \<lparr>instance_url = url, token = tok, event_handlers = [], slash_handlers = [],
      slash_definitions = [], running = False\<rparr>"

definition returning :: "nat \<Rightarrow> handler" where
  "returning n = \<lparr>hid = n, behaviour = (\<lambda>arg. None)\<rparr>"

definition raising :: "nat \<Rightarrow> exn \<Rightarrow> handler" where
  "raising n e = \<lparr>hid = n, behaviour = (\<lambda>arg. Some e)\<rparr>"

definition bot_event :: "string \<Rightarrow> obj \<Rightarrow> obj" where
  "bot_event event_name payload =
     [(''type'', JStr ''bot_event''), (''event'', JStr event_name), (''server_id'', JStr ''s1''),
      (''channel_id'', JStr ''c1''), (''data'', JObj payload)]"


section \<open>Evaluation and lookup lemmas\<close>

lemmas eval_defs = dispatch_event_def py_get_def inject_ids_def py_setitem_def
  add_event_handler_def handlers_for_def new_bot_def returning_def raising_def Let_def
  on_message_def on_event_def slash_command_def bot_event_def command_context_def

lemma map_of_py_setitem:
  "map_of (py_setitem d k v) k' = (if k' = k then Some v else map_of d k')"
  by (simp add: py_setitem_def update_conv')

lemma py_get_py_setitem:
  "py_get (py_setitem d k v) k' dflt = (if k' = k then v else py_get d k' dflt)"
  by (simp add: py_get_def map_of_py_setitem)

lemma map_of_inject_ids:
  "map_of (inject_ids data p) k =
     (if k = ''channel_id'' then Some (py_get data ''channel_id'' (JStr ''''))
      else if k = ''server_id'' then Some (py_get data ''server_id'' (JStr ''''))
      else map_of p k)"
  by (simp add: inject_ids_def map_of_py_setitem)

lemma py_get_inject_ids:
  "py_get (inject_ids data p) k dflt =
     (if k = ''channel_id'' then py_get data ''channel_id'' (JStr '''')
      else if k = ''server_id'' then py_get data ''server_id'' (JStr '''')
      else py_get p k dflt)"
  by (simp add: py_get_def map_of_inject_ids)

lemma call_handlers_arg:
  "Invoke n arg \<in> set (call_handlers ev p hs) \<Longrightarrow>
     arg = (if ev = JStr ''message_create'' then MessageArg (from_event p) else PayloadArg p)"
  by (induction hs) (auto simp: Let_def split: option.splits if_splits)

lemma dispatch_event_bot_event:
  assumes "py_get data ''type'' (JStr '''') = JStr ''bot_event''"
      and "py_get data ''data'' (JObj []) = JObj payload"
  shows "dispatch_event b (JObj data) =
     (let event_name = py_get data ''event'' (JStr '''');
          event_data = inject_ids data payload in
      if event_name = JStr ''slash_command'' then
        (let cmd_name = py_get event_data ''command'' (JStr '''') in
         case lookup_key (slash_handlers b) cmd_name of
           Inl e \<Rightarrow> ([], Inl e)
         | Inr None \<Rightarrow> ([], Inr ())
         | Inr (Some h) \<Rightarrow>
             (let ctx = command_context b cmd_name event_data
              in ([Invoke (hid h) (ContextArg ctx)],
                  case behaviour h (ContextArg ctx) of Some e \<Rightarrow> Inl e | None \<Rightarrow> Inr ())))
      else
        (case lookup_key (event_handlers b) event_name of
           Inl e \<Rightarrow> ([], Inl e)
         | Inr found \<Rightarrow>
             (call_handlers event_name event_data (case found of Some hs \<Rightarrow> hs | None \<Rightarrow> []),
              Inr ())))"
  using assms by (simp add: dispatch_event_def Let_def)

lemma dispatch_event_no_payload:
  assumes "py_get data ''type'' (JStr '''') = JStr ''bot_event''"
      and "\<forall>payload. py_get data ''data'' (JObj []) \<noteq> JObj payload"
  shows "dispatch_event b (JObj data) = ([], Inl TypeError)"
  using assms by (simp add: dispatch_event_def Let_def split: json.splits)

lemma dispatch_event_other_type:
  assumes "py_get data ''type'' (JStr '''') \<noteq> JStr ''bot_event''"
  shows "\<forall>n arg. Invoke n arg \<notin> set (fst (dispatch_event b (JObj data)))"
  using assms by (simp add: dispatch_event_def Let_def)

lemmas input_defs = py_get_def bot_event_def new_bot_def returning_def raising_def
  on_event_def on_message_def add_event_handler_def handlers_for_def slash_command_def
  inject_ids_def py_setitem_def

lemma handlers_for_add_event_handler:
  "handlers_for (event_handlers (add_event_handler k h b)) k' =
     (if k' = k then handlers_for (event_handlers b) k @ [h]
      else handlers_for (event_handlers b) k')"
  by (simp add: add_event_handler_def handlers_for_def update_conv')

lemma handlers_for_fold:
  "handlers_for (event_handlers (fold (add_event_handler k) hs b)) k =
     handlers_for (event_handlers b) k @ hs"
  by (induction hs arbitrary: b) (simp_all add: handlers_for_add_event_handler)

lemma call_handlers_concat:
  "call_handlers ev p hs =
     concat (map (\<lambda>h. Invoke (hid h)
                          (if ev = JStr ''message_create'' then MessageArg (from_event p)
                           else PayloadArg p)
                        # (case behaviour h (if ev = JStr ''message_create''
                                              then MessageArg (from_event p) else PayloadArg p) of
                             Some e \<Rightarrow> [Log ERROR (HandlerError ev e)]
                           | None \<Rightarrow> [])) hs)"
  by (induction hs) (simp_all add: Let_def)

lemma call_handlers_invoked:
  "[n. Invoke n a \<leftarrow> call_handlers ev p hs] = map hid hs"
  by (induction hs) (auto simp: Let_def split: option.splits)

lemma call_handlers_logged:
  "[e. Log ERROR (HandlerError k e) \<leftarrow> call_handlers ev p hs] =
     List.map_filter (\<lambda>h. behaviour h (if ev = JStr ''message_create''
                                         then MessageArg (from_event p) else PayloadArg p)) hs"
  by (induction hs) (auto simp: Let_def List.map_filter_simps split: option.splits)

lemma dispatch_event_generic:
  assumes "py_get data ''type'' (JStr '''') = JStr ''bot_event''"
      and "py_get data ''event'' (JStr '''') = JStr kind"
      and "kind \<noteq> ''slash_command''"
      and "py_get data ''data'' (JObj []) = JObj payload"
  shows "dispatch_event b (JObj data) =
           (call_handlers (JStr kind) (inject_ids data payload)
              (handlers_for (event_handlers b) kind), Inr ())"
  using assms(2,3) dispatch_event_bot_event [OF assms(1,4), of b]
  by (simp add: Let_def handlers_for_def)

lemma handle_frame_returns:
  "snd (dispatch_event b frame) = Inr () \<Longrightarrow>
     handle_frame b (Inr frame) = fst (dispatch_event b frame)"
  by (cases "dispatch_event b frame") (simp add: handle_frame_def)

lemma from_event_fields:
  "\<forall>(key, field) \<in> set message_fields.
     field (from_event event_data) = py_get event_data key (field default_message)"
  by (simp add: message_fields_def from_event_def default_message_def)

lemma dispatch_event_command:
  assumes "py_get data ''type'' (JStr '''') = JStr ''bot_event''"
      and "py_get data ''event'' (JStr '''') = JStr ''slash_command''"
      and "py_get data ''data'' (JObj []) = JObj payload"
      and "py_get payload ''command'' (JStr '''') = JStr name"
  shows "dispatch_event b (JObj data) =
           (case map_of (slash_handlers b) name of
              None \<Rightarrow> ([], Inr ())
            | Some h \<Rightarrow>
                ([Invoke (hid h)
                    (ContextArg (command_context b (JStr name) (inject_ids data payload)))],
                 case behaviour h
                        (ContextArg (command_context b (JStr name) (inject_ids data payload))) of
                   Some e \<Rightarrow> Inl e
                 | None \<Rightarrow> Inr ()))"
  using assms(2,4) dispatch_event_bot_event [OF assms(1,3), of b]
  by (simp add: Let_def py_get_inject_ids split: option.splits)

section \<open>The claims\<close>

text \<open>
  Claim C9. For every envelope of type \<^verbatim>\<open>bot_event\<close>, the dispatcher assigns the envelope's
  \<^verbatim>\<open>server_id\<close> and \<^verbatim>\<open>channel_id\<close> (the empty string when the envelope lacks the key) to the
  payload's keys, replacing what the payload held there, before anything is called: every
  callback that the dispatch calls is handed the payload after these assignments, the
  message record built from it, or a command context whose two identifiers are the
  envelope's. A payload that is not a dict reaches no callback.
\<close>

theorem injected_ids_reach_every_callback:
  "map_of (inject_ids data payload) ''server_id'' = Some (py_get data ''server_id'' (JStr ''''))
   \<and> map_of (inject_ids data payload) ''channel_id'' = Some (py_get data ''channel_id'' (JStr ''''))
   \<and> (\<forall>n arg. Invoke n arg \<in> set (fst (dispatch_event b (JObj data))) \<longrightarrow>
        (\<exists>p. py_get data ''data'' (JObj []) = JObj p \<and>
          (case arg of
             MessageArg m \<Rightarrow> m = from_event (inject_ids data p)
           | PayloadArg q \<Rightarrow> q = inject_ids data p
           | ContextArg c \<Rightarrow>
               ctx_server_id c = py_get data ''server_id'' (JStr '''') \<and>
               ctx_channel_id c = py_get data ''channel_id'' (JStr ''''))))"
proof (intro conjI allI impI)
  show "map_of (inject_ids data payload) ''server_id'' = Some (py_get data ''server_id'' (JStr ''''))"
    by (simp add: map_of_inject_ids)
  show "map_of (inject_ids data payload) ''channel_id'' = Some (py_get data ''channel_id'' (JStr ''''))"
    by (simp add: map_of_inject_ids)
next
  fix n arg
  assume inv: "Invoke n arg \<in> set (fst (dispatch_event b (JObj data)))"
  have ty: "py_get data ''type'' (JStr '''') = JStr ''bot_event''"
    using inv dispatch_event_other_type by blast
  obtain p where p: "py_get data ''data'' (JObj []) = JObj p"
    using inv dispatch_event_no_payload [OF ty, of b] by fastforce
  note d = dispatch_event_bot_event [OF ty p, of b]
  show "\<exists>p. py_get data ''data'' (JObj []) = JObj p \<and>
          (case arg of
             MessageArg m \<Rightarrow> m = from_event (inject_ids data p)
           | PayloadArg q \<Rightarrow> q = inject_ids data p
           | ContextArg c \<Rightarrow>
               ctx_server_id c = py_get data ''server_id'' (JStr '''') \<and>
               ctx_channel_id c = py_get data ''channel_id'' (JStr ''''))"
  proof (cases "py_get data ''event'' (JStr '''') = JStr ''slash_command''")
    case True
    with inv d have "\<exists>c. arg = ContextArg c \<and>
               ctx_server_id c = py_get data ''server_id'' (JStr '''') \<and>
               ctx_channel_id c = py_get data ''channel_id'' (JStr '''')"
      by (auto simp: Let_def py_get_inject_ids command_context_def split: sum.splits option.splits)
    with p show ?thesis by auto
  next
    case False
    with inv d have "arg = (if py_get data ''event'' (JStr '''') = JStr ''message_create''
                   then MessageArg (from_event (inject_ids data p)) else PayloadArg (inject_ids data p))"
      by (auto simp: Let_def split: sum.splits dest: call_handlers_arg)
    with p show ?thesis by (auto split: if_splits)
  qed
qed

theorem injected_ids_witness:
  "Invoke 1 (PayloadArg [(''user'', JStr ''bob''), (''server_id'', JStr ''s1''),
                         (''channel_id'', JStr '''')])
     \<in> set (fst (dispatch_event
                   (on_event ''member_join'' (returning 1) (new_bot ''https://chat.example'' ''t''))
                   (JObj [(''type'', JStr ''bot_event''), (''event'', JStr ''member_join''),
                          (''server_id'', JStr ''s1''),
                          (''data'', JObj [(''user'', JStr ''bob''), (''server_id'', JStr ''stale'')])])))
   \<and> inject_ids [(''type'', JStr ''bot_event''), (''event'', JStr ''member_join''),
                  (''server_id'', JStr ''s1''),
                  (''data'', JObj [(''user'', JStr ''bob''), (''server_id'', JStr ''stale'')])]
         [(''user'', JStr ''bob''), (''server_id'', JStr ''stale'')]
       = [(''user'', JStr ''bob''), (''server_id'', JStr ''s1''), (''channel_id'', JStr '''')]"
proof -
  let ?data = "[(''type'', JStr ''bot_event''), (''event'', JStr ''member_join''),
                  (''server_id'', JStr ''s1''),
                  (''data'', JObj [(''user'', JStr ''bob''), (''server_id'', JStr ''stale'')])]"
  let ?b = "on_event ''member_join'' (returning 1) (new_bot ''https://chat.example'' ''t'')"
  let ?arg = "PayloadArg [(''user'', JStr ''bob''), (''server_id'', JStr ''s1''),
                         (''channel_id'', JStr '''')]"
  have mem: "Invoke 1 ?arg \<in> set (fst (dispatch_event ?b (JObj ?data)))"
    by (simp add: eval_defs)
  have inj: "inject_ids ?data [(''user'', JStr ''bob''), (''server_id'', JStr ''stale'')]
       = [(''user'', JStr ''bob''), (''server_id'', JStr ''s1''), (''channel_id'', JStr '''')]"
    by (simp add: eval_defs)
  from injected_ids_reach_every_callback [of ?data "[(''user'', JStr ''bob''), (''server_id'', JStr ''stale'')]" ?b] mem
  have "\<exists>p. py_get ?data ''data'' (JObj []) = JObj p \<and> [(''user'', JStr ''bob''), (''server_id'', JStr ''s1''),
                         (''channel_id'', JStr '''')] = inject_ids ?data p"
    by fastforce
  with mem inj show ?thesis by simp
qed

text \<open>
  Claim C5, as amended. For every event kind other than \<^verbatim>\<open>slash_command\<close> and every list of
  handlers registered for it, dispatching one event of that kind calls every handler, in
  registration order (after the handlers the kind already had); a handler that raises
  does not keep the later ones from being called, each exception is logged once, right
  after the call that raised it, with the event name, and the dispatch returns without
  an exception, so the loop over the frames goes on to the next frame.
\<close>

theorem every_handler_called_in_registration_order:
  assumes "py_get data ''type'' (JStr '''') = JStr ''bot_event''"
      and "py_get data ''event'' (JStr '''') = JStr kind"
      and "kind \<noteq> ''slash_command''"
      and "py_get data ''data'' (JObj []) = JObj payload"
      and "b = fold (add_event_handler kind) hs b0"
      and "arg = (if kind = ''message_create''
                  then MessageArg (from_event (inject_ids data payload))
                  else PayloadArg (inject_ids data payload))"
  shows "dispatch_event b (JObj data) =
           (concat (map (\<lambda>h. Invoke (hid h) arg
                               # (case behaviour h arg of
                                    Some e \<Rightarrow> [Log ERROR (HandlerError (JStr kind) e)]
                                  | None \<Rightarrow> []))
                      (handlers_for (event_handlers b0) kind @ hs)),
            Inr ())
       \<and> [n. Invoke n a \<leftarrow> fst (dispatch_event b (JObj data))] =
           map hid (handlers_for (event_handlers b0) kind @ hs)
       \<and> [e. Log ERROR (HandlerError k e) \<leftarrow> fst (dispatch_event b (JObj data))] =
           List.map_filter (\<lambda>h. behaviour h arg) (handlers_for (event_handlers b0) kind @ hs)
       \<and> process_frames b (Inr (JObj data) # rest) =
           fst (dispatch_event b (JObj data)) @ process_frames b rest"
proof -
  let ?hs = "handlers_for (event_handlers b0) kind @ hs"
  have hs: "handlers_for (event_handlers b) kind = ?hs"
    using assms(5) by (simp add: handlers_for_fold)
  have d: "dispatch_event b (JObj data) =
             (call_handlers (JStr kind) (inject_ids data payload) ?hs, Inr ())"
    using dispatch_event_generic [OF assms(1-4), of b] hs by simp
  have a: "arg = (if JStr kind = JStr ''message_create''
                  then MessageArg (from_event (inject_ids data payload))
                  else PayloadArg (inject_ids data payload))"
    using assms(6) by simp
  have 1: "dispatch_event b (JObj data) =
           (concat (map (\<lambda>h. Invoke (hid h) arg
                               # (case behaviour h arg of
                                    Some e \<Rightarrow> [Log ERROR (HandlerError (JStr kind) e)]
                                  | None \<Rightarrow> [])) ?hs), Inr ())"
    unfolding d a by (simp only: call_handlers_concat)
  have 2: "[n. Invoke n a \<leftarrow> fst (dispatch_event b (JObj data))] = map hid ?hs"
    unfolding d by (simp only: fst_conv call_handlers_invoked)
  have 3: "[e. Log ERROR (HandlerError k e) \<leftarrow> fst (dispatch_event b (JObj data))] =
           List.map_filter (\<lambda>h. behaviour h arg) ?hs"
    unfolding d a by (simp only: fst_conv call_handlers_logged)
  have 4: "process_frames b (Inr (JObj data) # rest) =
           fst (dispatch_event b (JObj data)) @ process_frames b rest"
    using handle_frame_returns [of b "JObj data"] d by simp
  from 1 2 3 4 show ?thesis by blast
qed

theorem every_handler_called_witness:
  "dispatch_event
     (fold (add_event_handler ''member_join'')
        [raising 2 (OtherException ''ValueError'' ''bad''), returning 3]
        (on_event ''member_join'' (returning 1) (new_bot ''https://chat.example'' ''t'')))
     (JObj (bot_event ''member_join'' [(''user'', JStr ''bob'')]))
   = ([Invoke 1 (PayloadArg [(''user'', JStr ''bob''), (''server_id'', JStr ''s1''),
                             (''channel_id'', JStr ''c1'')]),
       Invoke 2 (PayloadArg [(''user'', JStr ''bob''), (''server_id'', JStr ''s1''),
                             (''channel_id'', JStr ''c1'')]),
       Log ERROR (HandlerError (JStr ''member_join'') (OtherException ''ValueError'' ''bad'')),
       Invoke 3 (PayloadArg [(''user'', JStr ''bob''), (''server_id'', JStr ''s1''),
                             (''channel_id'', JStr ''c1'')])],
      Inr ())"
proof -
  let ?b0 = "on_event ''member_join'' (returning 1) (new_bot ''https://chat.example'' ''t'')"
  let ?hs = "[raising 2 (OtherException ''ValueError'' ''bad''), returning 3]"
  let ?data = "bot_event ''member_join'' [(''user'', JStr ''bob'')]"
  let ?arg = "PayloadArg (inject_ids ?data [(''user'', JStr ''bob'')])"
  have 1: "py_get ?data ''type'' (JStr '''') = JStr ''bot_event''"
    by (simp add: input_defs)
  have 2: "py_get ?data ''event'' (JStr '''') = JStr ''member_join''"
    by (simp add: input_defs)
  have 3: "''member_join'' \<noteq> ''slash_command''"
    by simp
  have 4: "py_get ?data ''data'' (JObj []) = JObj [(''user'', JStr ''bob'')]"
    by (simp add: input_defs)
  have 5: "?arg = (if ''member_join'' = ''message_create''
                   then MessageArg (from_event (inject_ids ?data [(''user'', JStr ''bob'')]))
                   else PayloadArg (inject_ids ?data [(''user'', JStr ''bob'')]))"
    by simp
  from every_handler_called_in_registration_order [OF 1 2 3 4 refl 5, of ?hs ?b0 "[]"]
  show ?thesis
    by (simp add: input_defs)
qed

text \<open>
  Claim C5 as stated, for every event kind, fails at the kind \<^verbatim>\<open>slash_command\<close>: a handler
  registered for it with \<^verbatim>\<open>on_event\<close> is in the table and is never called.
\<close>

theorem slash_command_event_handlers_never_called:
  "handlers_for
     (event_handlers
        (on_event ''slash_command'' (returning 1) (new_bot ''https://chat.example'' ''t'')))
     ''slash_command'' = [returning 1]
   \<and> dispatch_event
       (on_event ''slash_command'' (returning 1) (new_bot ''https://chat.example'' ''t''))
       (JObj (bot_event ''slash_command'' [(''command'', JStr ''ping'')]))
     = ([], Inr ())"
  by (simp add: input_defs dispatch_event_def)

text \<open>
  Claim C7, as amended. For every \<^verbatim>\<open>message_create\<close> event, each handler is handed the
  message record built from the payload after the identifiers were injected: every field
  holds the payload's value at its key when the key is present and the dataclass default
  when it is absent, \<^verbatim>\<open>raw\<close> is the payload itself, and the two identifiers are the
  envelope's. For every other event kind except \<^verbatim>\<open>slash_command\<close>, each handler is handed
  the payload mapping after the injection, as it is.
\<close>

theorem handlers_receive_message_record_or_payload:
  assumes "py_get data ''type'' (JStr '''') = JStr ''bot_event''"
      and "py_get data ''event'' (JStr '''') \<noteq> JStr ''slash_command''"
      and "py_get data ''data'' (JObj []) = JObj payload"
  shows "(\<forall>n arg. Invoke n arg \<in> set (fst (dispatch_event b (JObj data))) \<longrightarrow>
            arg = (if py_get data ''event'' (JStr '''') = JStr ''message_create''
                   then MessageArg (from_event (inject_ids data payload))
                   else PayloadArg (inject_ids data payload)))
       \<and> (\<forall>(key, field) \<in> set message_fields.
            field (from_event event_data) = py_get event_data key (field default_message))
       \<and> msg_raw (from_event event_data) = event_data
       \<and> msg_server_id (from_event (inject_ids data payload)) =
           py_get data ''server_id'' (JStr '''')
       \<and> msg_channel_id (from_event (inject_ids data payload)) =
           py_get data ''channel_id'' (JStr '''')"
proof -
  have 1: "\<forall>n arg. Invoke n arg \<in> set (fst (dispatch_event b (JObj data))) \<longrightarrow>
            arg = (if py_get data ''event'' (JStr '''') = JStr ''message_create''
                   then MessageArg (from_event (inject_ids data payload))
                   else PayloadArg (inject_ids data payload))"
    using assms(2) dispatch_event_bot_event [OF assms(1,3), of b]
    by (auto simp: Let_def split: sum.splits dest: call_handlers_arg)
  have 2: "msg_raw (from_event event_data) = event_data"
    by (simp add: from_event_def)
  have 3: "msg_server_id (from_event (inject_ids data payload)) =
           py_get data ''server_id'' (JStr '''')"
    by (simp add: from_event_def py_get_inject_ids)
  have 4: "msg_channel_id (from_event (inject_ids data payload)) =
           py_get data ''channel_id'' (JStr '''')"
    by (simp add: from_event_def py_get_inject_ids)
  from 1 from_event_fields [of event_data] 2 3 4 show ?thesis by blast
qed

theorem message_record_witness:
  "Invoke 1
     (MessageArg
        \<lparr> msg_id = JNull, msg_username = JStr ''bob'', msg_content = JStr ''!ping'',
          msg_timestamp = JStr '''', msg_server_id = JStr ''s1'', msg_channel_id = JStr ''c1'',
          msg_context = JStr '''', msg_context_id = JStr '''', msg_is_bot = JBool False,
          msg_edited_at = JNull, msg_reactions = JList [], msg_attachments = JList [],
          msg_mentions = JList [], msg_reply_data = JNull,
          msg_raw = [(''content'', JStr ''!ping''), (''username'', JStr ''bob''),
                     (''is_bot'', JBool False), (''server_id'', JStr ''s1''),
                     (''channel_id'', JStr ''c1'')] \<rparr>)
     \<in> set (fst (dispatch_event
                   (on_message (returning 1) (new_bot ''https://chat.example'' ''t''))
                   (JObj (bot_event ''message_create''
                            [(''content'', JStr ''!ping''), (''username'', JStr ''bob''),
                             (''is_bot'', JBool False)]))))"
proof -
  let ?b = "on_message (returning 1) (new_bot ''https://chat.example'' ''t'')"
  let ?payload = "[(''content'', JStr ''!ping''), (''username'', JStr ''bob''),
                   (''is_bot'', JBool False)]"
  let ?data = "bot_event ''message_create'' ?payload"
  have 1: "py_get ?data ''type'' (JStr '''') = JStr ''bot_event''"
    by (simp add: input_defs)
  have 2: "py_get ?data ''event'' (JStr '''') \<noteq> JStr ''slash_command''"
    by (simp add: input_defs)
  have 3: "py_get ?data ''data'' (JObj []) = JObj ?payload"
    by (simp add: input_defs)
  have "\<exists>arg. Invoke 1 arg \<in> set (fst (dispatch_event ?b (JObj ?data)))"
    by (simp add: input_defs dispatch_event_def)
  then obtain arg where mem: "Invoke 1 arg \<in> set (fst (dispatch_event ?b (JObj ?data)))"
    by blast
  with handlers_receive_message_record_or_payload [OF 1 2 3, of ?b "[]"]
  have "arg = (if py_get ?data ''event'' (JStr '''') = JStr ''message_create''
               then MessageArg (from_event (inject_ids ?data ?payload))
               else PayloadArg (inject_ids ?data ?payload))"
    by blast
  then have "arg = MessageArg (from_event (inject_ids ?data ?payload))"
    by (simp add: input_defs)
  with mem show ?thesis
    by (simp add: input_defs from_event_def)
qed

text \<open>
  Claim C7 as stated, for every other event kind, fails at the kind \<^verbatim>\<open>slash_command\<close>:
  the handler that is called is handed a command context, not the payload mapping.
\<close>

theorem slash_command_handler_receives_context:
  "fst (dispatch_event
          (slash_command ''ping'' ''Replies with pong'' None (returning 1)
             (new_bot ''https://chat.example'' ''t''))
          (JObj (bot_event ''slash_command'' [(''command'', JStr ''ping'')])))
   = [Invoke 1
        (ContextArg
           \<lparr>ctx_command_name = JStr ''ping'', ctx_arguments = JObj [], ctx_user = JStr '''',
            ctx_server_id = JStr ''s1'', ctx_channel_id = JStr ''c1'',
            ctx_bot = Some \<lparr>instance_url = ''https://chat.example'', token = ''t''\<rparr>\<rparr>)]"
  by (simp add: input_defs dispatch_event_def command_context_def api.truncate_def)

text \<open>
  Claim C6. An envelope of type \<^verbatim>\<open>bot_event\<close> and kind \<^verbatim>\<open>slash_command\<close> whose payload names
  a command: when the command is registered, its handler is called exactly once, with a
  context whose user is the payload's and whose server and channel identifiers are the
  envelope's; when it is not registered, nothing is called and nothing is raised.
\<close>

theorem registered_command_invoked_once_with_context:
  assumes "py_get data ''type'' (JStr '''') = JStr ''bot_event''"
      and "py_get data ''event'' (JStr '''') = JStr ''slash_command''"
      and "py_get data ''data'' (JObj []) = JObj payload"
      and "py_get payload ''command'' (JStr '''') = JStr name"
      and "ctx = command_context b (JStr name) (inject_ids data payload)"
  shows "(\<forall>h. map_of (slash_handlers b) name = Some h \<longrightarrow>
            fst (dispatch_event b (JObj data)) = [Invoke (hid h) (ContextArg ctx)])
       \<and> ctx_user ctx = py_get payload ''user'' (JStr '''')
       \<and> ctx_server_id ctx = py_get data ''server_id'' (JStr '''')
       \<and> ctx_channel_id ctx = py_get data ''channel_id'' (JStr '''')
       \<and> (map_of (slash_handlers b) name = None \<longrightarrow>
            dispatch_event b (JObj data) = ([], Inr ()))"
proof -
  note d = dispatch_event_command [OF assms(1-4), of b]
  have 1: "\<forall>h. map_of (slash_handlers b) name = Some h \<longrightarrow>
            fst (dispatch_event b (JObj data)) = [Invoke (hid h) (ContextArg ctx)]"
    using d assms(5) by simp
  have 2: "ctx_user ctx = py_get payload ''user'' (JStr '''')"
    using assms(5) by (simp add: command_context_def py_get_inject_ids)
  have 3: "ctx_server_id ctx = py_get data ''server_id'' (JStr '''')"
    using assms(5) by (simp add: command_context_def py_get_inject_ids)
  have 4: "ctx_channel_id ctx = py_get data ''channel_id'' (JStr '''')"
    using assms(5) by (simp add: command_context_def py_get_inject_ids)
  have 5: "map_of (slash_handlers b) name = None \<longrightarrow>
            dispatch_event b (JObj data) = ([], Inr ())"
    using d by simp
  from 1 2 3 4 5 show ?thesis by blast
qed

theorem registered_command_witness:
  "fst (dispatch_event
          (slash_command ''ping'' '''' None (returning 1) (new_bot ''https://chat.example'' ''t''))
          (JObj (bot_event ''slash_command''
                   [(''command'', JStr ''ping''), (''arguments'', JObj []),
                    (''user'', JStr ''alice'')])))
   = [Invoke 1
        (ContextArg
           \<lparr>ctx_command_name = JStr ''ping'', ctx_arguments = JObj [],
            ctx_user = JStr ''alice'', ctx_server_id = JStr ''s1'', ctx_channel_id = JStr ''c1'',
            ctx_bot = Some \<lparr>instance_url = ''https://chat.example'', token = ''t''\<rparr>\<rparr>)]
   \<and> dispatch_event
       (slash_command ''ping'' '''' None (returning 1) (new_bot ''https://chat.example'' ''t''))
       (JObj (bot_event ''slash_command''
                [(''command'', JStr ''unknown''), (''arguments'', JObj []),
                 (''user'', JStr ''alice'')]))
     = ([], Inr ())"
proof -
  let ?b = "slash_command ''ping'' '''' None (returning 1) (new_bot ''https://chat.example'' ''t'')"
  let ?p = "[(''command'', JStr ''ping''), (''arguments'', JObj []), (''user'', JStr ''alice'')]"
  let ?q = "[(''command'', JStr ''unknown''), (''arguments'', JObj []), (''user'', JStr ''alice'')]"
  have reg: "map_of (slash_handlers ?b) ''ping'' = Some (returning 1)"
    by (simp add: input_defs)
  have unreg: "map_of (slash_handlers ?b) ''unknown'' = None"
    by (simp add: input_defs)
  have a: "fst (dispatch_event ?b (JObj (bot_event ''slash_command'' ?p)))
         = [Invoke (hid (returning 1))
              (ContextArg (command_context ?b (JStr ''ping'')
                             (inject_ids (bot_event ''slash_command'' ?p) ?p)))]"
    using registered_command_invoked_once_with_context
            [of "bot_event ''slash_command'' ?p" ?p "''ping''" _ ?b, OF _ _ _ _ refl] reg
    by (simp add: py_get_def bot_event_def)
  have b: "dispatch_event ?b (JObj (bot_event ''slash_command'' ?q)) = ([], Inr ())"
    using registered_command_invoked_once_with_context
            [of "bot_event ''slash_command'' ?q" ?q "''unknown''" _ ?b, OF _ _ _ _ refl] unreg
    by (simp add: py_get_def bot_event_def)
  from a b show ?thesis
    by (simp add: input_defs command_context_def api.truncate_def)
qed

text \<open>
  Claim C2, as amended. An exception raised inside a command handler, other than a
  \<^verbatim>\<open>JSONDecodeError\<close>, propagates out of \<^verbatim>\<open>_dispatch_event\<close> and is caught by the loop over
  the frames, which logs it as an error of handling the event, the exception being the
  only argument of the record, and goes on to the next frame.
\<close>

theorem command_handler_exception_reaches_frame_loop:
  assumes "py_get data ''type'' (JStr '''') = JStr ''bot_event''"
      and "py_get data ''event'' (JStr '''') = JStr ''slash_command''"
      and "py_get data ''data'' (JObj []) = JObj payload"
      and "py_get payload ''command'' (JStr '''') = JStr name"
      and "map_of (slash_handlers b) name = Some h"
      and "ctx = command_context b (JStr name) (inject_ids data payload)"
      and "behaviour h (ContextArg ctx) = Some e"
      and "\<not> is_JSONDecodeError e"
  shows "dispatch_event b (JObj data) = ([Invoke (hid h) (ContextArg ctx)], Inl e)
       \<and> handle_frame b (Inr (JObj data)) =
           [Invoke (hid h) (ContextArg ctx), Log ERROR (ErrorHandlingEvent e)]
       \<and> log_args (ErrorHandlingEvent e) = [ArgExn e]
       \<and> process_frames b (Inr (JObj data) # rest) =
           [Invoke (hid h) (ContextArg ctx), Log ERROR (ErrorHandlingEvent e)]
           @ process_frames b rest"
proof -
  have d: "dispatch_event b (JObj data) = ([Invoke (hid h) (ContextArg ctx)], Inl e)"
    using dispatch_event_command [OF assms(1-4), of b] assms(5-7) by simp
  then have f: "handle_frame b (Inr (JObj data)) =
           [Invoke (hid h) (ContextArg ctx), Log ERROR (ErrorHandlingEvent e)]"
    using assms(8) by (simp add: handle_frame_def)
  from d f show ?thesis by simp
qed

theorem command_handler_exception_witness:
  "process_frames
     (slash_command ''hello'' ''Say hello to someone!'' None
        (raising 1 (OtherException ''ValueError'' ''no such user''))
        (new_bot ''https://chat.example'' ''t''))
     [Inr (JObj (bot_event ''slash_command''
                   [(''command'', JStr ''hello''), (''user'', JStr ''alice'')])),
      Inr (JObj [(''type'', JStr ''pong'')]),
      Inr (JObj (bot_event ''slash_command''
                   [(''command'', JStr ''hello''), (''user'', JStr ''bob'')]))]
   = [Invoke 1
        (ContextArg
           \<lparr>ctx_command_name = JStr ''hello'', ctx_arguments = JObj [],
            ctx_user = JStr ''alice'', ctx_server_id = JStr ''s1'', ctx_channel_id = JStr ''c1'',
            ctx_bot = Some \<lparr>instance_url = ''https://chat.example'', token = ''t''\<rparr>\<rparr>),
      Log ERROR (ErrorHandlingEvent (OtherException ''ValueError'' ''no such user'')),
      Invoke 1
        (ContextArg
           \<lparr>ctx_command_name = JStr ''hello'', ctx_arguments = JObj [],
            ctx_user = JStr ''bob'', ctx_server_id = JStr ''s1'', ctx_channel_id = JStr ''c1'',
            ctx_bot = Some \<lparr>instance_url = ''https://chat.example'', token = ''t''\<rparr>\<rparr>),
      Log ERROR (ErrorHandlingEvent (OtherException ''ValueError'' ''no such user''))]"
proof -
  let ?e = "OtherException ''ValueError'' ''no such user''"
  let ?b = "slash_command ''hello'' ''Say hello to someone!'' None (raising 1 ?e)
              (new_bot ''https://chat.example'' ''t'')"
  let ?p = "[(''command'', JStr ''hello''), (''user'', JStr ''alice'')]"
  let ?data = "bot_event ''slash_command'' ?p"
  let ?rest = "[Inr (JObj [(''type'', JStr ''pong'')]),
                Inr (JObj (bot_event ''slash_command''
                             [(''command'', JStr ''hello''), (''user'', JStr ''bob'')]))]"
  have reg: "map_of (slash_handlers ?b) ''hello'' = Some (raising 1 ?e)"
    by (simp add: input_defs)
  have raises: "behaviour (raising 1 ?e)
                  (ContextArg (command_context ?b (JStr ''hello'') (inject_ids ?data ?p)))
                = Some ?e"
    by (simp add: raising_def)
  have other: "\<not> is_JSONDecodeError ?e"
    by simp
  have 1: "py_get ?data ''type'' (JStr '''') = JStr ''bot_event''"
    by (simp add: input_defs)
  have 2: "py_get ?data ''event'' (JStr '''') = JStr ''slash_command''"
    by (simp add: input_defs)
  have 3: "py_get ?data ''data'' (JObj []) = JObj ?p"
    by (simp add: input_defs)
  have 4: "py_get ?p ''command'' (JStr '''') = JStr ''hello''"
    by (simp add: input_defs)
  from command_handler_exception_reaches_frame_loop
         [OF 1 2 3 4 reg refl raises other, of ?rest]
  have "process_frames ?b (Inr (JObj ?data) # ?rest) =
          [Invoke (hid (raising 1 ?e))
             (ContextArg (command_context ?b (JStr ''hello'') (inject_ids ?data ?p))),
           Log ERROR (ErrorHandlingEvent ?e)]
          @ process_frames ?b ?rest"
    by blast
  then show ?thesis
    by (simp add: input_defs dispatch_event_def handle_frame_def command_context_def
          api.truncate_def)
qed

text \<open>
  Claim C2 as stated fails where it says the exception is logged together with the
  command name and does not propagate: for the command \<^verbatim>\<open>ping\<close> whose handler raises, the
  one record logged has the exception as its only argument, and the dispatch itself ends
  with the exception.
\<close>

theorem command_handler_exception_logged_without_command_name:
  "handle_frame
     (slash_command ''ping'' '''' None (raising 1 (OtherException ''RuntimeError'' ''boom''))
        (new_bot ''https://chat.example'' ''t''))
     (Inr (JObj (bot_event ''slash_command'' [(''command'', JStr ''ping'')])))
   = [Invoke 1
        (ContextArg
           \<lparr>ctx_command_name = JStr ''ping'', ctx_arguments = JObj [], ctx_user = JStr '''',
            ctx_server_id = JStr ''s1'', ctx_channel_id = JStr ''c1'',
            ctx_bot = Some \<lparr>instance_url = ''https://chat.example'', token = ''t''\<rparr>\<rparr>),
      Log ERROR (ErrorHandlingEvent (OtherException ''RuntimeError'' ''boom''))]
   \<and> log_args (ErrorHandlingEvent (OtherException ''RuntimeError'' ''boom''))
     = [ArgExn (OtherException ''RuntimeError'' ''boom'')]
   \<and> snd (dispatch_event
            (slash_command ''ping'' '''' None (raising 1 (OtherException ''RuntimeError'' ''boom''))
               (new_bot ''https://chat.example'' ''t''))
            (JObj (bot_event ''slash_command'' [(''command'', JStr ''ping'')])))
     = Inl (OtherException ''RuntimeError'' ''boom'')"
  by (simp add: input_defs dispatch_event_def handle_frame_def command_context_def
        api.truncate_def)

lemma slash_handlers_register:
  "map_of (slash_handlers (register (name, description, parameters, func) b)) n =
     (if n = name then Some func else map_of (slash_handlers b) n)"
  by (simp add: register_def slash_command_def update_conv')

lemma slash_definitions_register:
  "slash_definitions (register (name, description, parameters, func) b) =
     slash_definitions b @ [command_definition name description parameters]"
  by (simp add: register_def slash_command_def)

lemma slash_handlers_fold:
  "map_of (slash_handlers (fold register rs b)) n =
     map_of (rev (map (\<lambda>(name, description, parameters, func). (name, func)) rs)
             @ slash_handlers b) n"
proof (induction rs arbitrary: b)
  case Nil
  then show ?case by simp
next
  case (Cons r rs)
  obtain name description parameters func where r: "r = (name, description, parameters, func)"
    by (cases r) auto
  show ?case
    by (simp add: Cons.IH r slash_handlers_register map_add_def split: option.splits)
qed

lemma slash_definitions_fold:
  "slash_definitions (fold register rs b) =
     slash_definitions b
     @ map (\<lambda>(name, description, parameters, func).
              command_definition name description parameters) rs"
proof (induction rs arbitrary: b)
  case Nil
  then show ?case by simp
next
  case (Cons r rs)
  obtain name description parameters func where r: "r = (name, description, parameters, func)"
    by (cases r) auto
  show ?case
    by (simp add: Cons.IH r slash_definitions_register)
qed

lemma definition_name_command_definition:
  "definition_name (command_definition name description parameters) = Some (JStr name)"
  by (simp add: definition_name_def command_definition_def)

lemma count_definitions:
  "length (filter (\<lambda>d. definition_name d = Some (JStr n))
             (map (\<lambda>(name, description, parameters, func).
                     command_definition name description parameters) rs)) =
   length (filter (\<lambda>(name, description, parameters, func). name = n) rs)"
  by (induction rs) (auto simp: definition_name_command_definition)

text \<open>
  Claim C3, as amended. Registering a slash command assigns the handler table at the
  name and appends a definition to the list: after any sequence of registrations the
  table maps a name to the handler of its last registration, and the list holds one
  definition for each registration, in registration order, so after two registrations
  with the same name it holds two definitions for that name, the last registered being
  the later one. The list is sent to the server as it is.
\<close>

theorem registration_overwrites_handler_and_appends_definition:
  assumes "b = fold register rs b0"
  shows "map_of (slash_handlers b) n =
           map_of (rev (map (\<lambda>(name, description, parameters, func). (name, func)) rs)
                   @ slash_handlers b0) n
       \<and> map_of (slash_handlers (register (n, d1, p1, f1) b)) n = Some f1
       \<and> map_of (slash_handlers (register (n, d2, p2, f2) (register (n, d1, p1, f1) b))) n
           = Some f2
       \<and> slash_definitions b =
           slash_definitions b0
           @ map (\<lambda>(name, description, parameters, func).
                    command_definition name description parameters) rs
       \<and> slash_definitions (register (n, d2, p2, f2) (register (n, d1, p1, f1) b)) =
           slash_definitions b @ [command_definition n d1 p1, command_definition n d2 p2]
       \<and> (slash_definitions b0 = [] \<longrightarrow>
            length (filter (\<lambda>d. definition_name d = Some (JStr n)) (slash_definitions b)) =
            length (filter (\<lambda>(name, description, parameters, func). name = n) rs))
       \<and> (slash_definitions b \<noteq> [] \<longrightarrow>
            fst (register_commands b outcome) ! 0 =
              Request \<lparr>req_method = ''POST'', req_path = ''/api/bot/commands'',
                       req_headers = headers b,
                       req_json = Some (JObj [(''commands'', JList (slash_definitions b))])\<rparr>)"
proof -
  have 1: "map_of (slash_handlers b) n =
           map_of (rev (map (\<lambda>(name, description, parameters, func). (name, func)) rs)
                   @ slash_handlers b0) n"
    unfolding assms by (rule slash_handlers_fold)
  have 2: "map_of (slash_handlers (register (n, d1, p1, f1) b)) n = Some f1"
    by (simp add: slash_handlers_register)
  have 3: "map_of (slash_handlers (register (n, d2, p2, f2) (register (n, d1, p1, f1) b))) n
           = Some f2"
    by (simp add: slash_handlers_register)
  have 4: "slash_definitions b =
           slash_definitions b0
           @ map (\<lambda>(name, description, parameters, func).
                    command_definition name description parameters) rs"
    unfolding assms by (rule slash_definitions_fold)
  have 5: "slash_definitions (register (n, d2, p2, f2) (register (n, d1, p1, f1) b)) =
           slash_definitions b @ [command_definition n d1 p1, command_definition n d2 p2]"
    by (simp add: slash_definitions_register)
  have 6: "slash_definitions b0 = [] \<longrightarrow>
            length (filter (\<lambda>d. definition_name d = Some (JStr n)) (slash_definitions b)) =
            length (filter (\<lambda>(name, description, parameters, func). name = n) rs)"
    using 4 count_definitions [of n rs] by simp
  have 7: "slash_definitions b \<noteq> [] \<longrightarrow>
            fst (register_commands b outcome) ! 0 =
              Request \<lparr>req_method = ''POST'', req_path = ''/api/bot/commands'',
                       req_headers = headers b,
                       req_json = Some (JObj [(''commands'', JList (slash_definitions b))])\<rparr>"
    by (simp add: register_commands_def api_request_def Let_def
          split: http_outcome.splits sum.splits)
  from 1 2 3 4 5 6 7 show ?thesis by blast
qed

theorem registration_witness:
  "map_option hid
     (map_of (slash_handlers
                (fold register
                   [(''ping'', ''first'', None, returning 1),
                    (''ping'', ''second'', None, returning 2)]
                   (new_bot ''https://chat.example'' ''t'')))
        ''ping'') = Some 2
   \<and> length (filter (\<lambda>d. definition_name d = Some (JStr ''ping''))
               (slash_definitions
                  (fold register
                     [(''ping'', ''first'', None, returning 1),
                      (''ping'', ''second'', None, returning 2)]
                     (new_bot ''https://chat.example'' ''t'')))) = 2"
proof -
  let ?rs = "[(''ping'', ''first'', None :: parameter list option, returning 1),
             (''ping'', ''second'', None, returning 2)]"
  let ?b0 = "new_bot ''https://chat.example'' ''t''"
  have e: "slash_definitions ?b0 = []"
    by (simp add: new_bot_def)
  note t = registration_overwrites_handler_and_appends_definition
             [OF refl, of ?rs ?b0 "''ping''" "''''" None "returning 0" "''''" None "returning 0"
                "RequestRaises TypeError"]
  have h: "map_of (slash_handlers (fold register ?rs ?b0)) ''ping'' =
           map_of (rev (map (\<lambda>(name, description, parameters, func). (name, func)) ?rs)
                   @ slash_handlers ?b0) ''ping''"
    using t by blast
  have c: "length (filter (\<lambda>d. definition_name d = Some (JStr ''ping''))
                     (slash_definitions (fold register ?rs ?b0))) =
           length (filter (\<lambda>(name, description, parameters, func). name = ''ping'') ?rs)"
    using t e by blast
  from h c show ?thesis
    by (simp add: returning_def)
qed

text \<open>
  Claim C3 as stated fails where it says the definitions sent contain exactly one
  definition for the name: after \<^verbatim>\<open>ping\<close> is registered twice, the list and the body of the
  registration request hold both definitions.
\<close>

theorem second_registration_leaves_two_definitions:
  "slash_definitions
     (slash_command ''ping'' ''second'' None (returning 2)
        (slash_command ''ping'' ''first'' None (returning 1)
           (new_bot ''https://chat.example'' ''t'')))
   = [JObj [(''name'', JStr ''ping''), (''description'', JStr ''first''),
            (''parameters'', JList [])],
      JObj [(''name'', JStr ''ping''), (''description'', JStr ''second''),
            (''parameters'', JList [])]]
   \<and> fst (register_commands
            (slash_command ''ping'' ''second'' None (returning 2)
               (slash_command ''ping'' ''first'' None (returning 1)
                  (new_bot ''https://chat.example'' ''t'')))
            (Response 200 (Inr (JObj [(''success'', JBool True)]))))
     = [Request
          \<lparr>req_method = ''POST'', req_path = ''/api/bot/commands'',
           req_headers = [(''Authorization'', ''Bot t''),
                          (''Content-Type'', ''application/json'')],
           req_json =
             Some (JObj [(''commands'',
                          JList [JObj [(''name'', JStr ''ping''),
                                       (''description'', JStr ''first''),
                                       (''parameters'', JList [])],
                                 JObj [(''name'', JStr ''ping''),
                                       (''description'', JStr ''second''),
                                       (''parameters'', JList [])]])])\<rparr>]"
  by (simp add: slash_command_def command_definition_def new_bot_def register_commands_def
        api_request_def headers_def)

text \<open>
  Claim C8. For every request of the action client whose response has a status of 400 or
  more and a body that \<^verbatim>\<open>resp.json()\<close> parses, the request does not raise: one API error
  is logged and the parsed body is returned. What is returned does not depend on the
  status at all, so it is what a success status would return.
\<close>

theorem error_status_is_logged_and_body_returned:
  assumes "400 \<le> status"
  shows "api_request a (Response status (Inr data)) method path body =
           ([Request \<lparr>req_method = method, req_path = path, req_headers = headers a,
                      req_json = body\<rparr>,
             Log ERROR (ApiError method path status data)],
            Inr data)
       \<and> snd (api_request a (Response status parsed) method path body) =
           snd (api_request a (Response status' parsed) method path body)"
  using assms by (simp add: api_request_def Let_def split: sum.splits)

theorem error_status_witness:
  "api_request (new_bot ''https://chat.example'' ''t'')
     (Response 404 (Inr (JObj [(''success'', JBool False), (''error'', JStr ''Not found'')])))
     ''DELETE'' ''/api/bot/messages/7'' None
   = ([Request \<lparr>req_method = ''DELETE'', req_path = ''/api/bot/messages/7'',
                 req_headers = [(''Authorization'', ''Bot t''),
                                (''Content-Type'', ''application/json'')],
                 req_json = None\<rparr>,
       Log ERROR (ApiError ''DELETE'' ''/api/bot/messages/7'' 404
                    (JObj [(''success'', JBool False), (''error'', JStr ''Not found'')]))],
      Inr (JObj [(''success'', JBool False), (''error'', JStr ''Not found'')]))
   \<and> snd (api_request (new_bot ''https://chat.example'' ''t'')
            (Response 200 (Inr (JObj [(''success'', JBool False), (''error'', JStr ''Not found'')])))
            ''DELETE'' ''/api/bot/messages/7'' None)
     = Inr (JObj [(''success'', JBool False), (''error'', JStr ''Not found'')])"
proof -
  have s: "(400::int) \<le> 404" by simp
  from error_status_is_logged_and_body_returned
         [OF s, of "new_bot ''https://chat.example'' ''t''"
            "JObj [(''success'', JBool False), (''error'', JStr ''Not found'')]"
            "''DELETE''" "''/api/bot/messages/7''" None
            "Inr (JObj [(''success'', JBool False), (''error'', JStr ''Not found'')])" 200]
  show ?thesis
    by (simp add: headers_def new_bot_def api_request_def)
qed

lemma send_message_requests:
  "\<exists>r. Request r \<in> set (fst (send_message a outcome sid cid content))"
  by (auto simp: send_message_def api_request_def Let_def split: http_outcome.splits sum.splits)

text \<open>
  Claim C10. \<^verbatim>\<open>reply\<close> makes a request exactly when the context has a client
  back-reference and a truthy \<^verbatim>\<open>server_id\<close> and \<^verbatim>\<open>channel_id\<close> (for a str: a non-empty one),
  and then it makes the request of \<^verbatim>\<open>send_message\<close>; for every context missing any of the
  three it makes no request and returns \<^verbatim>\<open>None\<close> without raising.
\<close>

theorem reply_needs_client_and_both_ids:
  "(ctx_bot ctx = None \<or> \<not> py_truthy (ctx_server_id ctx) \<or> \<not> py_truthy (ctx_channel_id ctx)
      \<longrightarrow> reply ctx outcome content = ([], Inr None))
   \<and> ((\<exists>r. Request r \<in> set (fst (reply ctx outcome content))) =
        (ctx_bot ctx \<noteq> None \<and> py_truthy (ctx_server_id ctx) \<and> py_truthy (ctx_channel_id ctx)))
   \<and> (\<forall>a. ctx_bot ctx = Some a \<and> py_truthy (ctx_server_id ctx) \<and> py_truthy (ctx_channel_id ctx)
        \<longrightarrow> fst (reply ctx outcome content) =
              fst (send_message a outcome (ctx_server_id ctx) (ctx_channel_id ctx) content))
   \<and> py_truthy (JStr s) = (s \<noteq> '''')"
proof -
  have 1: "ctx_bot ctx = None \<or> \<not> py_truthy (ctx_server_id ctx) \<or> \<not> py_truthy (ctx_channel_id ctx)
      \<longrightarrow> reply ctx outcome content = ([], Inr None)"
    by (auto simp: reply_def split: option.splits)
  have 3: "\<forall>a. ctx_bot ctx = Some a \<and> py_truthy (ctx_server_id ctx) \<and> py_truthy (ctx_channel_id ctx)
        \<longrightarrow> fst (reply ctx outcome content) =
              fst (send_message a outcome (ctx_server_id ctx) (ctx_channel_id ctx) content)"
    by (auto simp: reply_def split: prod.splits sum.splits)
  have 2: "(\<exists>r. Request r \<in> set (fst (reply ctx outcome content))) =
        (ctx_bot ctx \<noteq> None \<and> py_truthy (ctx_server_id ctx) \<and> py_truthy (ctx_channel_id ctx))"
  proof (cases "ctx_bot ctx \<noteq> None \<and> py_truthy (ctx_server_id ctx) \<and> py_truthy (ctx_channel_id ctx)")
    case True
    then obtain a where "ctx_bot ctx = Some a" by auto
    with True 3 send_message_requests [of a outcome "ctx_server_id ctx" "ctx_channel_id ctx" content]
    show ?thesis by auto
  next
    case False
    with 1 show ?thesis by auto
  qed
  from 1 2 3 show ?thesis by simp
qed

theorem reply_witness:
  "reply \<lparr>ctx_command_name = JStr ''ping'', ctx_arguments = JObj [], ctx_user = JStr ''alice'',
          ctx_server_id = JStr ''s1'', ctx_channel_id = JStr '''',
          ctx_bot = Some \<lparr>instance_url = ''https://chat.example'', token = ''t''\<rparr>\<rparr>
     (Response 200 (Inr (JObj [(''success'', JBool True)]))) ''Pong!''
   = ([], Inr None)
   \<and> fst (reply \<lparr>ctx_command_name = JStr ''ping'', ctx_arguments = JObj [],
                 ctx_user = JStr ''alice'', ctx_server_id = JStr ''s1'',
                 ctx_channel_id = JStr ''c1'',
                 ctx_bot = Some \<lparr>instance_url = ''https://chat.example'', token = ''t''\<rparr>\<rparr>
            (Response 200 (Inr (JObj [(''success'', JBool True)]))) ''Pong!'')
     = [Request \<lparr>req_method = ''POST'', req_path = ''/api/bot/messages'',
                 req_headers = [(''Authorization'', ''Bot t''),
                                (''Content-Type'', ''application/json'')],
                 req_json = Some (JObj [(''server_id'', JStr ''s1''),
                                        (''channel_id'', JStr ''c1''),
                                        (''content'', JStr ''Pong!'')])\<rparr>]"
proof -
  let ?a = "\<lparr>instance_url = ''https://chat.example'', token = ''t''\<rparr>"
  let ?out = "Response 200 (Inr (JObj [(''success'', JBool True)]))"
  let ?c0 = "\<lparr>ctx_command_name = JStr ''ping'', ctx_arguments = JObj [], ctx_user = JStr ''alice'',
          ctx_server_id = JStr ''s1'', ctx_channel_id = JStr '''', ctx_bot = Some ?a\<rparr>"
  let ?c1 = "\<lparr>ctx_command_name = JStr ''ping'', ctx_arguments = JObj [], ctx_user = JStr ''alice'',
          ctx_server_id = JStr ''s1'', ctx_channel_id = JStr ''c1'', ctx_bot = Some ?a\<rparr>"
  have a: "reply ?c0 ?out ''Pong!'' = ([], Inr None)"
    using reply_needs_client_and_both_ids [of ?c0 ?out "''Pong!''"] by simp
  have b: "fst (reply ?c1 ?out ''Pong!'') = fst (send_message ?a ?out (JStr ''s1'') (JStr ''c1'') ''Pong!'')"
    using reply_needs_client_and_both_ids [of ?c1 ?out "''Pong!''"] by simp
  from a b show ?thesis
    by (simp add: send_message_def api_request_def headers_def)
qed

lemma connect_ws_error_response:
  assumes "connect_raises a = None"
      and "send_raises a = None"
      and "recv_result a = Inr (Inr (JObj d))"
      and "map_of d ''type'' = Some (JStr ''error'')"
  shows "connect_ws b a =
           ([Log INFO (Connecting (ws_url b)), Connect (ws_url b),
             Send (JObj [(''type'', JStr ''bot_auth''), (''token'', JStr (token b))])],
            Inl (ConnectionError
                   (''Authentication failed: '' @ py_str (py_get d ''message'' JNull))))"
  using assms by (simp add: connect_ws_def py_get_def Let_def)

lemma ws_attempt_connect_fails:
  "connect_ws b a = (tr, Inl e) \<Longrightarrow> ws_attempt b a = (tr, Inl e)"
  by (simp add: ws_attempt_def)

lemma ws_loop_end:
  "fst (ws_loop b []) = []"
  by simp

lemma ws_loop_step:
  "running b \<Longrightarrow>
   ws_loop b (a # rest) =
     (fst (ws_attempt b a) @ fst (except_clauses (snd (ws_attempt b a)))
        @ (if \<not> snd (except_clauses (snd (ws_attempt b a))) \<and> \<not> stop_in_attempt a
           then [Sleep 5] else [])
        @ fst (ws_loop (if stop_in_attempt a \<or> stop_in_wait a then stop b else b) rest),
      snd (ws_loop (if stop_in_attempt a \<or> stop_in_wait a then stop b else b) rest))"
  by (simp add: Let_def stop_def)

lemma ws_url_running: "ws_url (b\<lparr>running := r\<rparr>) = ws_url b"
  by (simp add: ws_url_def)

text \<open>
  Claim C1. When the response to the authentication frame is a dict of type \<^verbatim>\<open>error\<close>
  with a message, \<^verbatim>\<open>_connect_ws\<close> raises the authentication error, which the client raises
  as a \<^verbatim>\<open>ConnectionError\<close> whose text is \<^verbatim>\<open>Authentication failed: \<close> followed by the message
  (a str \<open>m\<close> as it is, any other value as \<^verbatim>\<open>str\<close> shows it); the pass through the loop
  ends there, whatever frames the connection would have yielded: nothing is registered,
  no frame is dispatched, and the loop logs the error and waits 10.
\<close>

theorem error_response_raises_and_nothing_is_dispatched:
  assumes "connect_raises a = None"
      and "send_raises a = None"
      and "recv_result a = Inr (Inr (JObj d))"
      and "map_of d ''type'' = Some (JStr ''error'')"
      and "map_of d ''message'' = Some v"
  shows "connect_ws b a =
           ([Log INFO (Connecting (ws_url b)), Connect (ws_url b),
             Send (JObj [(''type'', JStr ''bot_auth''), (''token'', JStr (token b))])],
            Inl (ConnectionError (''Authentication failed: '' @ py_str v)))
       \<and> py_str (JStr m) = m
       \<and> ws_attempt b a = connect_ws b a
       \<and> ws_attempt b (a\<lparr>frames := fs\<rparr>) = ws_attempt b a
       \<and> fst (start b [a]) =
           [Log INFO Starting,
            Log INFO (Connecting (ws_url b)), Connect (ws_url b),
            Send (JObj [(''type'', JStr ''bot_auth''), (''token'', JStr (token b))]),
            Log ERROR (ConnectionErrorRetry
                         (ConnectionError (''Authentication failed: '' @ py_str v))),
            Sleep 10]"
proof -
  have m: "py_get d ''message'' JNull = v"
    using assms(5) by (simp add: py_get_def)
  have c: "connect_ws b' a' =
           ([Log INFO (Connecting (ws_url b')), Connect (ws_url b'),
             Send (JObj [(''type'', JStr ''bot_auth''), (''token'', JStr (token b'))])],
            Inl (ConnectionError (''Authentication failed: '' @ py_str v)))"
    if "connect_raises a' = None" "send_raises a' = None" "recv_result a' = Inr (Inr (JObj d))"
    for b' a'
    using connect_ws_error_response [OF that assms(4), of b'] m by simp
  have 1: "connect_ws b a =
           ([Log INFO (Connecting (ws_url b)), Connect (ws_url b),
             Send (JObj [(''type'', JStr ''bot_auth''), (''token'', JStr (token b))])],
            Inl (ConnectionError (''Authentication failed: '' @ py_str v)))"
    using c [OF assms(1-3)] .
  have 2: "ws_attempt b a = connect_ws b a"
    using 1 ws_attempt_connect_fails by simp
  have "connect_ws b (a\<lparr>frames := fs\<rparr>) = connect_ws b a"
    using c [of "a\<lparr>frames := fs\<rparr>" b] assms(1-3) 1 by simp
  then have 3: "ws_attempt b (a\<lparr>frames := fs\<rparr>) = ws_attempt b a"
    using 1 2 ws_attempt_connect_fails by simp
  let ?b = "b\<lparr>running := True\<rparr>"
  have r: "running ?b" by simp
  have "ws_attempt ?b a =
           ([Log INFO (Connecting (ws_url b)), Connect (ws_url b),
             Send (JObj [(''type'', JStr ''bot_auth''), (''token'', JStr (token b))])],
            Inl (ConnectionError (''Authentication failed: '' @ py_str v)))"
    using c [OF assms(1-3), of ?b] ws_attempt_connect_fails [of ?b a]
    by (simp add: ws_url_running)
  then have 4: "fst (start b [a]) =
           [Log INFO Starting,
            Log INFO (Connecting (ws_url b)), Connect (ws_url b),
            Send (JObj [(''type'', JStr ''bot_auth''), (''token'', JStr (token b))]),
            Log ERROR (ConnectionErrorRetry
                         (ConnectionError (''Authentication failed: '' @ py_str v))),
            Sleep 10]"
    unfolding start_def
    by (simp add: Let_def ws_loop_step [OF r] ws_loop_end except_clauses_def del: ws_loop.simps)
  have 5: "py_str (JStr m) = m"
    by (simp add: py_str_def)
  from 1 2 3 4 5 show ?thesis by blast
qed

theorem error_response_witness:
  "fst (start
          (on_message (returning 1) (new_bot ''https://chat.example'' ''secret''))
          [\<lparr>connect_raises = None, send_raises = None,
            recv_result = Inr (Inr (JObj [(''type'', JStr ''error''),
                                          (''message'', JStr ''bad token'')])),
            register_outcome = Response 200 (Inr JNull),
            frames = [Inr (JObj (bot_event ''message_create'' [(''content'', JStr ''!ping'')]))],
            stream_end = None, stop_in_attempt = False, stop_in_wait = False\<rparr>])
   = [Log INFO Starting,
      Log INFO (Connecting ''wss://chat.example/ws''), Connect ''wss://chat.example/ws'',
      Send (JObj [(''type'', JStr ''bot_auth''), (''token'', JStr ''secret'')]),
      Log ERROR (ConnectionErrorRetry (ConnectionError ''Authentication failed: bad token'')),
      Sleep 10]"
proof -
  let ?b = "on_message (returning 1) (new_bot ''https://chat.example'' ''secret'')"
  let ?d = "[(''type'', JStr ''error''), (''message'', JStr ''bad token'')]"
  let ?a = "\<lparr>connect_raises = None, send_raises = None,
            recv_result = Inr (Inr (JObj ?d)),
            register_outcome = Response 200 (Inr JNull),
            frames = [Inr (JObj (bot_event ''message_create'' [(''content'', JStr ''!ping'')]))],
            stream_end = None, stop_in_attempt = False, stop_in_wait = False\<rparr>"
  have u: "ws_url ?b = ''wss://chat.example/ws''"
    by (simp add: ws_url_def on_message_def add_event_handler_def new_bot_def)
  have t: "token ?b = ''secret''"
    by (simp add: on_message_def add_event_handler_def new_bot_def)
  from error_response_raises_and_nothing_is_dispatched
         [of ?a ?d "JStr ''bad token''" ?b "''bad token''" "[]"]
  have "fst (start ?b [?a]) =
           [Log INFO Starting,
            Log INFO (Connecting (ws_url ?b)), Connect (ws_url ?b),
            Send (JObj [(''type'', JStr ''bot_auth''), (''token'', JStr (token ?b))]),
            Log ERROR (ConnectionErrorRetry
                         (ConnectionError (''Authentication failed: '' @ ''bad token''))),
            Sleep 10]"
    by (simp add: py_str_def)
  then show ?thesis
    unfolding u t by simp
qed

lemma connections_append:
  "connections (xs @ ys) = connections xs @ connections ys"
  by (induction xs rule: connections.induct) simp_all

lemma call_handlers_connects:
  "connections (call_handlers ev p hs) = []"
  by (induction hs) (auto simp: Let_def connections_append split: option.splits)

lemma dispatch_event_connects:
  "connections (fst (dispatch_event b frame)) = []"
  by (auto simp: dispatch_event_def Let_def call_handlers_connects
      split: json.splits sum.splits option.splits)

lemma handle_frame_connects:
  "connections (handle_frame b raw_message) = []"
proof (cases raw_message)
  case (Inl e)
  then show ?thesis by (simp add: handle_frame_def)
next
  case (Inr frame)
  obtain tr res where d: "dispatch_event b frame = (tr, res)"
    by (cases "dispatch_event b frame")
  with dispatch_event_connects [of b frame] have "connections (tr) = []" by simp
  with Inr d show ?thesis
    by (cases res) (simp_all add: handle_frame_def connections_append)
qed

lemma process_frames_connects:
  "connections (process_frames b fs) = []"
  by (induction fs) (simp_all add: handle_frame_connects connections_append)

lemma register_commands_connects:
  "connections (fst (register_commands b outcome)) = []"
  by (simp add: register_commands_def api_request_def Let_def
        split: http_outcome.splits sum.splits)

lemma connect_ws_connects:
  "connections (fst (connect_ws b a)) = [ws_url b]"
  by (simp add: connect_ws_def Let_def connections_append split: option.splits sum.splits json.splits)

lemma ws_attempt_connects:
  "connections (fst (ws_attempt b a)) = [ws_url b]"
proof -
  obtain t1 r1 where c: "connect_ws b a = (t1, r1)"
    by (cases "connect_ws b a")
  with connect_ws_connects [of b a] have t1: "connections (t1) = [ws_url b]" by simp
  obtain t2 r2 where g: "register_commands b (register_outcome a) = (t2, r2)"
    by (cases "register_commands b (register_outcome a)")
  with register_commands_connects [of b "register_outcome a"]
  have t2: "connections (t2) = []" by simp
  show ?thesis
    using c g t1 t2
    by (cases r1; cases r2)
       (simp_all add: ws_attempt_def process_frames_connects connections_append)
qed

lemma except_clauses_connects:
  "connections (fst (except_clauses res)) = []"
  by (simp add: except_clauses_def split: sum.splits)

lemma ws_loop_never_gives_up:
  "running b \<Longrightarrow> \<forall>a \<in> set script. \<not> stop_in_attempt a \<and> \<not> stop_in_wait a \<Longrightarrow>
     snd (ws_loop b script) = Reconnecting
     \<and> length (connections (fst (ws_loop b script))) = length script"
proof (induction script)
  case Nil
  then show ?case by simp
next
  case (Cons a rest)
  from Cons.prems have s: "\<not> stop_in_attempt a" "\<not> stop_in_wait a" by simp_all
  from Cons have ih: "snd (ws_loop b rest) = Reconnecting"
      "length (connections (fst (ws_loop b rest))) = length rest" by simp_all
  show ?case
    using ih s
    by (simp add: ws_loop_step [OF Cons.prems(1)] ws_attempt_connects except_clauses_connects
          connections_append del: ws_loop.simps)
qed

text \<open>
  Claim C4, as amended. While the running flag is set, a pass that ends with a clean
  close (the iteration over the connection is exhausted, or raises \<^verbatim>\<open>ConnectionClosed\<close>) is
  followed by a wait of 5 unless a stop came during the pass; a pass that raises an
  exception of the built-in \<^verbatim>\<open>ConnectionError\<close> class or a subclass of it, which is the
  authentication error of \<^verbatim>\<open>_connect_ws\<close> and equally a refused or reset connection, is
  followed by a wait of 10; a pass that raises any other exception is followed by a wait
  of 5 unless a stop came during the pass. The loop then goes on with the next pass:
  as long as no stop is requested it connects once for every pass of the script,
  however long, and is reconnecting at its end; it has exited only if a stop was requested.
\<close>

theorem backoff_by_exception_class_and_no_giving_up:
  assumes "running b"
      and "later = ws_loop (if stop_in_attempt a \<or> stop_in_wait a then stop b else b) rest"
  shows "(snd (ws_attempt b a) = Inr () \<longrightarrow>
            ws_loop b (a # rest) =
              (fst (ws_attempt b a) @ (if stop_in_attempt a then [] else [Sleep 5]) @ fst later,
               snd later))
       \<and> (\<forall>e. snd (ws_attempt b a) = Inl e \<and> is_ConnectionClosed e \<longrightarrow>
            ws_loop b (a # rest) =
              (fst (ws_attempt b a) @ [Log WARNING (WebSocketClosed e)]
                 @ (if stop_in_attempt a then [] else [Sleep 5]) @ fst later,
               snd later))
       \<and> (\<forall>e. snd (ws_attempt b a) = Inl e \<and> is_ConnectionError e \<longrightarrow>
            ws_loop b (a # rest) =
              (fst (ws_attempt b a) @ [Log ERROR (ConnectionErrorRetry e), Sleep 10] @ fst later,
               snd later))
       \<and> (\<forall>e. snd (ws_attempt b a) = Inl e \<and> \<not> is_ConnectionClosed e \<and> \<not> is_ConnectionError e \<longrightarrow>
            ws_loop b (a # rest) =
              (fst (ws_attempt b a) @ [Log ERROR (UnexpectedError e)]
                 @ (if stop_in_attempt a then [] else [Sleep 5]) @ fst later,
               snd later))
       \<and> ((\<forall>a \<in> set script. \<not> stop_in_attempt a \<and> \<not> stop_in_wait a) \<longrightarrow>
            snd (ws_loop b script) = Reconnecting
            \<and> length (connections (fst (ws_loop b script))) = length script)
       \<and> (snd (ws_loop b script) = Exited \<longrightarrow>
            (\<exists>a \<in> set script. stop_in_attempt a \<or> stop_in_wait a))"
proof -
  note step = ws_loop_step [OF assms(1), of a rest, folded assms(2)]
  have 1: "snd (ws_attempt b a) = Inr () \<longrightarrow>
            ws_loop b (a # rest) =
              (fst (ws_attempt b a) @ (if stop_in_attempt a then [] else [Sleep 5]) @ fst later,
               snd later)"
    using step by (simp add: except_clauses_def del: ws_loop.simps)
  have 2: "\<forall>e. snd (ws_attempt b a) = Inl e \<and> is_ConnectionClosed e \<longrightarrow>
            ws_loop b (a # rest) =
              (fst (ws_attempt b a) @ [Log WARNING (WebSocketClosed e)]
                 @ (if stop_in_attempt a then [] else [Sleep 5]) @ fst later,
               snd later)"
    using step by (simp add: except_clauses_def del: ws_loop.simps)
  have cc: "is_ConnectionError e \<Longrightarrow> \<not> is_ConnectionClosed e" for e
    by (cases e) simp_all
  have 3: "\<forall>e. snd (ws_attempt b a) = Inl e \<and> is_ConnectionError e \<longrightarrow>
            ws_loop b (a # rest) =
              (fst (ws_attempt b a) @ [Log ERROR (ConnectionErrorRetry e), Sleep 10] @ fst later,
               snd later)"
    using step cc by (simp add: except_clauses_def del: ws_loop.simps)
  have 4: "\<forall>e. snd (ws_attempt b a) = Inl e \<and> \<not> is_ConnectionClosed e \<and> \<not> is_ConnectionError e \<longrightarrow>
            ws_loop b (a # rest) =
              (fst (ws_attempt b a) @ [Log ERROR (UnexpectedError e)]
                 @ (if stop_in_attempt a then [] else [Sleep 5]) @ fst later,
               snd later)"
    using step by (simp add: except_clauses_def del: ws_loop.simps)
  have 5: "(\<forall>a \<in> set script. \<not> stop_in_attempt a \<and> \<not> stop_in_wait a) \<longrightarrow>
            snd (ws_loop b script) = Reconnecting
            \<and> length (connections (fst (ws_loop b script))) = length script"
    using ws_loop_never_gives_up [OF assms(1)] by blast
  have 6: "snd (ws_loop b script) = Exited \<longrightarrow>
            (\<exists>a \<in> set script. stop_in_attempt a \<or> stop_in_wait a)"
    using 5 by auto
  from 1 2 3 4 5 6 show ?thesis by blast
qed

theorem clean_closes_witness:
  "ws_loop (new_bot ''http://localhost:8765'' ''t''\<lparr>running := True\<rparr>)
     [\<lparr>connect_raises = None, send_raises = None,
       recv_result = Inr (Inr (JObj [(''type'', JStr ''bot_auth_success''),
                                     (''username'', JStr ''echo''), (''bot_id'', JStr ''b7'')])),
       register_outcome = Response 200 (Inr JNull), frames = [], stream_end = None,
       stop_in_attempt = False, stop_in_wait = False\<rparr>]
   = ([Log INFO (Connecting ''ws://localhost:8765/ws''), Connect ''ws://localhost:8765/ws'',
       Send (JObj [(''type'', JStr ''bot_auth''), (''token'', JStr ''t'')]),
       Log INFO (Authenticated (JStr ''echo'') (JStr ''b7'')),
       Sleep 5],
      Reconnecting)
   \<and> snd (ws_loop (new_bot ''http://localhost:8765'' ''t''\<lparr>running := True\<rparr>)
            (replicate 3
               \<lparr>connect_raises = None, send_raises = None,
                 recv_result = Inr (Inr (JObj [(''type'', JStr ''bot_auth_success''),
                                               (''username'', JStr ''echo''),
                                               (''bot_id'', JStr ''b7'')])),
                 register_outcome = Response 200 (Inr JNull), frames = [], stream_end = None,
                 stop_in_attempt = False, stop_in_wait = False\<rparr>))
     = Reconnecting
   \<and> length (connections
               (fst (ws_loop (new_bot ''http://localhost:8765'' ''t''\<lparr>running := True\<rparr>)
                       (replicate 3
                          \<lparr>connect_raises = None, send_raises = None,
                            recv_result = Inr (Inr (JObj [(''type'', JStr ''bot_auth_success''),
                                                          (''username'', JStr ''echo''),
                                                          (''bot_id'', JStr ''b7'')])),
                            register_outcome = Response 200 (Inr JNull), frames = [],
                            stream_end = None, stop_in_attempt = False,
                            stop_in_wait = False\<rparr>))))
     = 3"
proof -
  let ?b = "new_bot ''http://localhost:8765'' ''t''\<lparr>running := True\<rparr>"
  let ?a = "\<lparr>connect_raises = None, send_raises = None,
       recv_result = Inr (Inr (JObj [(''type'', JStr ''bot_auth_success''),
                                     (''username'', JStr ''echo''), (''bot_id'', JStr ''b7'')])),
       register_outcome = Response 200 (Inr JNull), frames = [], stream_end = None,
       stop_in_attempt = False, stop_in_wait = False\<rparr>"
  have r: "running ?b" by simp
  have att: "ws_attempt ?b ?a =
       ([Log INFO (Connecting ''ws://localhost:8765/ws''), Connect ''ws://localhost:8765/ws'',
         Send (JObj [(''type'', JStr ''bot_auth''), (''token'', JStr ''t'')]),
         Log INFO (Authenticated (JStr ''echo'') (JStr ''b7''))],
        Inr ())"
    by (simp add: ws_attempt_def connect_ws_def ws_url_def new_bot_def py_get_def)
  note t = backoff_by_exception_class_and_no_giving_up [OF r refl, of ?a "[]" "replicate 3 ?a"]
  have 1: "ws_loop ?b [?a] =
             (fst (ws_attempt ?b ?a) @ [Sleep 5] @ fst (ws_loop ?b []), snd (ws_loop ?b []))"
    using t att by simp
  have 2: "snd (ws_loop ?b (replicate 3 ?a)) = Reconnecting
         \<and> length (connections (fst (ws_loop ?b (replicate 3 ?a)))) = length (replicate 3 ?a)"
    using t by simp
  from 1 2 att show ?thesis
    by simp
qed

text \<open>
  Claim C4 as stated, a wait of 5 after any failure that is neither a clean close nor an
  authentication error, fails for a refused connection: \<^verbatim>\<open>websockets.connect\<close> raises
  \<^verbatim>\<open>ConnectionRefusedError\<close>, no authentication frame is sent, and the loop waits 10.
\<close>

theorem refused_connection_waits_ten:
  "start (new_bot ''https://chat.example'' ''t'')
     [\<lparr>connect_raises = Some (ConnectionRefusedError ''Connect call failed''),
       send_raises = None, recv_result = Inl (ConnectionClosed ''no connection''),
       register_outcome = Response 200 (Inr JNull), frames = [], stream_end = None,
       stop_in_attempt = False, stop_in_wait = False\<rparr>]
   = ([Log INFO Starting,
       Log INFO (Connecting ''wss://chat.example/ws''), Connect ''wss://chat.example/ws'',
       Log ERROR (ConnectionErrorRetry (ConnectionRefusedError ''Connect call failed'')),
       Sleep 10],
      Reconnecting)"
  by (simp add: start_def ws_attempt_def connect_ws_def except_clauses_def ws_url_def
        new_bot_def stop_def)

end
